theory Spec2Isabelle
  imports Main "HOL-Library.Word" "HOL-Library.Multiset" "HOL-Library.Product_Lexorder"
begin

section \<open>Data model of env/fatvars.c\<close>

text \<open>
  The selector of env/fatvars.c reads one environment record from each config
  partition, ranks the records, advances the update state of the leader and hands the
  chosen record to the loader.  The headers of the firmware (efi.h, envdata.h,
  bootguard.h, syspart.h) are not among the sources, so the types they declare are
  written here from the way fatvars.c and its test use them.
\<close>

type_synonym CHAR16 = "16 word"

text \<open>
  Modelled from the spec: EFI_STATUS and the macro EFI_ERROR (efi.h is missing).  A
  status is success, a warning or an error; EFI_ERROR holds of the errors only.
\<close>

datatype EFI_STATUS = EFI_SUCCESS | EFI_WARN nat | EFI_ERR nat

fun EFI_ERROR :: "EFI_STATUS \<Rightarrow> bool" where
  "EFI_ERROR (EFI_ERR _) = True"
| "EFI_ERROR _ = False"

definition EFI_BAD_BUFFER_SIZE :: EFI_STATUS where
  "EFI_BAD_BUFFER_SIZE = EFI_ERR 4"

definition EFI_CRC_ERROR :: EFI_STATUS where
  "EFI_CRC_ERROR = EFI_ERR 27"

datatype BG_STATUS =
  BG_SUCCESS | BG_CONFIG_PARTIALLY_CORRUPTED | BG_CONFIG_ERROR | BG_NOT_IMPLEMENTED

text \<open>
  Modelled from the spec: the update state and the environment record (envdata.h is
  missing).  The spec's data model gives the fields: in_progress is a boolean, ustate is
  one of OK, INSTALLED, TESTING, FAILED or unknown, revision and the watchdog timeout
  are unsigned integers, the two strings are arrays of 16-bit code units and the record
  ends with a 32-bit checksum (uint32_t in fatvars.c).
\<close>

datatype ustate_t =
  USTATE_OK | USTATE_INSTALLED | USTATE_TESTING | USTATE_FAILED | USTATE_UNKNOWN

record BG_ENVDATA =
  kernelfile :: "CHAR16 list"
  kernelparams :: "CHAR16 list"
  in_progress :: bool
  ustate :: ustate_t
  watchdog_timeout_sec :: nat
  revision :: nat
  crc32 :: "32 word"

text \<open>
  REVISION_FAILED is the revision given to a failed update; fatvars.c calls it the
  zero-revision.
\<close>

definition REVISION_FAILED :: nat where
  "REVISION_FAILED = 0"

text \<open>
  struct EnvDataVolume of fatvars.c: a record and the volume it was read from.  The
  volume index is an index into the array volumes (an int that load_config assigns
  from the UINTN config_volumes[ix]).
\<close>

record EnvDataVolume =
  volume_index :: nat
  envdata :: BG_ENVDATA

text \<open>
  A volume descriptor: fatvars.c uses its device path (for IsOnBootVolume) and the root
  of its file protocol (to open the config file).  Both are opaque handles.
\<close>

record VOLUME_DESC =
  devpath :: nat
  root :: nat

record BG_LOADER_PARAMS =
  payload_path :: "CHAR16 list option"
  payload_options :: "CHAR16 list option"
  timeout :: nat

datatype open_mode = MODE_READ | MODE_WRITE_READ

text \<open>The calls made to the file layer, in the order they are made.\<close>

datatype io_event =
  IO_open nat open_mode
| IO_read nat nat
| IO_write nat nat BG_ENVDATA
| IO_close nat

text \<open>
  The firmware services fatvars.c calls are outside the sources; each is a field of the
  platform, so that every one of them can fail on its own.  The file calls take the root
  of the volume; read returns the status, the length read and the buffer; Write returns
  the status and the length written; CalculateCrc32 returns the status and the value
  left in its output; StrDuplicate returns None for a null pointer.  The compile-time
  constants of the missing headers are fields as well.
\<close>

record platform =
  volumes :: "VOLUME_DESC list"
  AllocatePool :: "nat \<Rightarrow> bool"
  enumerate_cfg_parts :: "EFI_STATUS \<times> nat list"
  filter_cfg_parts :: "nat list \<Rightarrow> nat list"
  IsOnBootVolume :: "nat \<Rightarrow> bool"
  open_cfg_file :: "nat \<Rightarrow> open_mode \<Rightarrow> EFI_STATUS"
  read_cfg_file :: "nat \<Rightarrow> nat \<Rightarrow> EFI_STATUS \<times> nat \<times> BG_ENVDATA"
  write_cfg_file :: "nat \<Rightarrow> nat \<Rightarrow> BG_ENVDATA \<Rightarrow> EFI_STATUS \<times> nat"
  close_cfg_file :: "nat \<Rightarrow> open_mode \<Rightarrow> EFI_STATUS"
  CalculateCrc32 :: "BG_ENVDATA \<Rightarrow> EFI_STATUS \<times> 32 word"
  StrDuplicate :: "CHAR16 list \<Rightarrow> CHAR16 list option"
  sizeof_BG_ENVDATA :: nat
  sizeof_UINTN :: nat
  ENV_STRING_LENGTH :: nat
  ENV_NUM_CONFIG_PARTS :: nat

definition volume_count :: "platform \<Rightarrow> nat" where
  "volume_count p = length (volumes p)"

section \<open>Ranking\<close>

text \<open>config_state_ranking: the rank of a state; a null record keeps (unsigned) -1.\<close>

definition config_state_ranking :: "BG_ENVDATA option \<Rightarrow> 32 word" where
  "config_state_ranking e =
     (case e of
        None \<Rightarrow> - 1
      | Some d \<Rightarrow>
          (case ustate d of
             USTATE_INSTALLED \<Rightarrow> 0
           | USTATE_TESTING \<Rightarrow> 1
           | USTATE_OK \<Rightarrow> 2
           | _ \<Rightarrow> 3))"

text \<open>
  sift_envdata_volume: lhs and rhs are the two pointers held in the cells lhsp and rhsp
  (None is the null pointer, Some i points to env[i]); the result is the content of the
  two cells afterwards.
\<close>

definition sift_envdata_volume ::
  "platform \<Rightarrow> (nat \<Rightarrow> EnvDataVolume) \<Rightarrow> nat option \<times> nat option \<Rightarrow> nat option \<times> nat option"
where
  "sift_envdata_volume p env cells =
     (let lhs = fst cells;
          rhs = snd cells;
          lstaterank = config_state_ranking (map_option (\<lambda>i. envdata (env i)) lhs);
          rstaterank = config_state_ranking (map_option (\<lambda>i. envdata (env i)) rhs);
          swap =
            (case rhs of
               None \<Rightarrow> False
             | Some r \<Rightarrow>
                 (case lhs of
                    None \<Rightarrow> True
                  | Some l \<Rightarrow>
                      (let lbootvolume =
                             IsOnBootVolume p (devpath (volumes p ! volume_index (env l)));
                           rbootvolume =
                             IsOnBootVolume p (devpath (volumes p ! volume_index (env r)))
                       in if in_progress (envdata (env l)) \<noteq> in_progress (envdata (env r))
                          then in_progress (envdata (env l)) > in_progress (envdata (env r))
                          else if revision (envdata (env l)) \<noteq> revision (envdata (env r))
                          then revision (envdata (env l)) < revision (envdata (env r))
                          else if lstaterank \<noteq> rstaterank
                          then lstaterank > rstaterank
                          else if lbootvolume \<noteq> rbootvolume
                          then lbootvolume < rbootvolume
                          else if volume_index (env l) \<noteq> volume_index (env r)
                          then volume_index (env l) > volume_index (env r)
                          else False)))
      in if swap then (rhs, lhs) else (lhs, rhs))"

section \<open>Writing and reading one record\<close>

text \<open>
  The checksum covers the record without its trailing crc32 field: the service is given
  the record with that field cleared.
\<close>

definition crc_region :: "BG_ENVDATA \<Rightarrow> BG_ENVDATA" where
  "crc_region d = d\<lparr>crc32 := 0\<rparr>"

text \<open>
  save_current_config: the result, the slot afterwards (its crc32 is assigned before the
  write) and the calls made to the file layer.
\<close>

definition save_current_config ::
  "platform \<Rightarrow> EnvDataVolume \<Rightarrow> BG_STATUS \<times> EnvDataVolume \<times> io_event list"
where
  "save_current_config p e =
     (let v = volumes p ! volume_index e;
          efistatus = open_cfg_file p (root v) MODE_WRITE_READ
      in if EFI_ERROR efistatus
         then (BG_CONFIG_ERROR, e, [IO_open (root v) MODE_WRITE_READ])
         else
           (let crc = CalculateCrc32 p (crc_region (envdata e));
                writelen = sizeof_BG_ENVDATA p;
                e' = (if \<not> EFI_ERROR (fst crc)
                      then e\<lparr>envdata := (envdata e)\<lparr>crc32 := snd crc\<rparr>\<rparr> else e);
                efistatus' = (if \<not> EFI_ERROR (fst crc)
                              then fst (write_cfg_file p (root v) writelen (envdata e'))
                              else fst crc);
                written = (if \<not> EFI_ERROR (fst crc)
                           then [IO_write (root v) writelen (envdata e')] else [])
            in if EFI_ERROR efistatus'
               then (BG_CONFIG_ERROR, e',
                     IO_open (root v) MODE_WRITE_READ # written @ [IO_close (root v)])
               else if EFI_ERROR (close_cfg_file p (root v) MODE_WRITE_READ)
               then (BG_CONFIG_ERROR, e',
                     IO_open (root v) MODE_WRITE_READ # written @ [IO_close (root v)])
               else (BG_SUCCESS, e',
                     IO_open (root v) MODE_WRITE_READ # written @ [IO_close (root v)])))"

text \<open>
  read_config: the flag errored afterwards, the status returned, the buffer afterwards
  and the calls made to the file layer.
\<close>

definition read_config ::
  "platform \<Rightarrow> bool \<Rightarrow> VOLUME_DESC \<Rightarrow> BG_ENVDATA
     \<Rightarrow> bool \<times> EFI_STATUS \<times> BG_ENVDATA \<times> io_event list"
where
  "read_config p errored0 volume envdata0 =
     (let result = open_cfg_file p (root volume) MODE_READ
      in if EFI_ERROR result
         then (True, result, envdata0, [IO_open (root volume) MODE_READ])
         else
           (let rd = read_cfg_file p (root volume) (sizeof_BG_ENVDATA p);
                result1 = fst rd;
                readlen = fst (snd rd);
                buf = snd (snd rd);
                errored1 =
                  (if EFI_ERROR (close_cfg_file p (root volume) MODE_READ)
                   then True else errored0);
                calls = [IO_open (root volume) MODE_READ,
                         IO_read (root volume) (sizeof_BG_ENVDATA p),
                         IO_close (root volume)]
            in if EFI_ERROR result1 then (True, result1, buf, calls)
               else if readlen \<noteq> sizeof_BG_ENVDATA p
               then (True, EFI_BAD_BUFFER_SIZE, buf, calls)
               else
                 (let crc = CalculateCrc32 p (crc_region buf)
                  in if EFI_ERROR (fst crc) then (True, fst crc, buf, calls)
                     else if snd crc \<noteq> crc32 buf then (True, EFI_CRC_ERROR, buf, calls)
                     else (errored1, fst crc, buf, calls))))"

section \<open>load_config\<close>

definition ENVSLOTS :: nat where
  "ENVSLOTS = 3"

text \<open>
  The state of load_config: the slots env[0..2], the array rank_envdata of pointers into
  them, the position envrsrv in the array rsrv_envdata of unused slots, the flag
  errored, and the calls made to the file layer so far.
\<close>

record load_state =
  env :: "nat \<Rightarrow> EnvDataVolume"
  rank_envdata :: "nat option list"
  envrsrv :: nat
  errored :: bool
  trace :: "io_event list"

definition rsrv_envdata :: "nat list" where
  "rsrv_envdata = [0 ..< ENVSLOTS]"

text \<open>The stack slots are not initialised: env0 is what they hold on entry.\<close>

definition init_state :: "(nat \<Rightarrow> EnvDataVolume) \<Rightarrow> bool \<Rightarrow> load_state" where
  "init_state env0 errored0 =
     \<lparr>env = env0, rank_envdata = replicate ENVSLOTS None, envrsrv = ENVSLOTS,
      errored = errored0, trace = []\<rparr>"

text \<open>
  The do-while loop of lines 292 to 295: envrank is decremented, the cells envrank and
  envrank + 1 are sifted, until envrank is the first cell.  The loop is entered with
  envrank at the last cell, never at the first one.
\<close>

fun sift_loop ::
  "platform \<Rightarrow> (nat \<Rightarrow> EnvDataVolume) \<Rightarrow> nat \<Rightarrow> nat option list \<Rightarrow> nat option list"
where
  "sift_loop p env0 0 rank = rank"
| "sift_loop p env0 (Suc k) rank =
     (let cells = sift_envdata_volume p env0 (rank ! k, rank ! Suc k);
          rank' = rank[k := fst cells, Suc k := snd cells]
      in if k \<noteq> 0 then sift_loop p env0 k rank' else rank')"

text \<open>
  Lines 260 to 263: the new record goes to the slot the last cell points to; when that
  cell is null, it takes the next unused slot.
\<close>

definition claim_slot :: "load_state \<Rightarrow> load_state" where
  "claim_slot st =
     (let envrank = ENVSLOTS - 1
      in if rank_envdata st ! envrank = None
         then st\<lparr>envrsrv := envrsrv st - 1,
                 rank_envdata :=
                   (rank_envdata st)[envrank := Some (rsrv_envdata ! (envrsrv st - 1))]\<rparr>
         else st)"

text \<open>Lines 286 and 287: both strings end with a NUL in their last element.\<close>

definition terminate_strings :: "platform \<Rightarrow> BG_ENVDATA \<Rightarrow> BG_ENVDATA" where
  "terminate_strings p buf =
     buf\<lparr>kernelfile := (kernelfile buf)[ENV_STRING_LENGTH p - 1 := 0],
         kernelparams := (kernelparams buf)[ENV_STRING_LENGTH p - 1 := 0]\<rparr>"

text \<open>The body of the for loop of lines 258 to 296, for the volume index vix.\<close>

definition load_step :: "platform \<Rightarrow> nat \<Rightarrow> load_state \<Rightarrow> load_state" where
  "load_step p vix st =
     (let envrank = ENVSLOTS - 1;
          st1 = claim_slot st;
          slot = the (rank_envdata st1 ! envrank);
          rd = read_config p False (volumes p ! vix) (envdata (env st1 slot));
          read_error = fst rd;
          read_status = fst (snd rd);
          buf = fst (snd (snd rd));
          st2 = st1\<lparr>env := (env st1)(slot := \<lparr>volume_index = vix, envdata = buf\<rparr>),
                    errored := (errored st1 \<or> read_error),
                    trace := trace st1 @ snd (snd (snd rd))\<rparr>
      in if EFI_ERROR read_status then st2
         else
           (let env3 = (env st2)
                  (slot := \<lparr>volume_index = vix, envdata = terminate_strings p buf\<rparr>)
            in st2\<lparr>env := env3,
                   rank_envdata := sift_loop p env3 envrank (rank_envdata st2)\<rparr>))"

definition rank_volumes ::
  "platform \<Rightarrow> nat list \<Rightarrow> load_state \<Rightarrow> load_state"
where
  "rank_volumes p config_volumes st = fold (load_step p) config_volumes st"

record load_result =
  status :: BG_STATUS
  params :: BG_LOADER_PARAMS
  final :: load_state

text \<open>Lines 335 to 346: the fields of the chosen slot are handed to the loader.\<close>

definition hand_over ::
  "platform \<Rightarrow> BG_LOADER_PARAMS \<Rightarrow> nat \<Rightarrow> load_state \<Rightarrow> load_result"
where
  "hand_over p bglp latest st =
     \<lparr>status = (if errored st then BG_CONFIG_PARTIALLY_CORRUPTED else BG_SUCCESS),
      params = bglp\<lparr>payload_path := StrDuplicate p (kernelfile (envdata (env st latest))),
                    payload_options := StrDuplicate p (kernelparams (envdata (env st latest))),
                    timeout := watchdog_timeout_sec (envdata (env st latest))\<rparr>,
      final = st\<rparr>"

text \<open>The call save_current_config(latest) of load_config: the result is dropped.\<close>

definition save_slot :: "platform \<Rightarrow> nat \<Rightarrow> load_state \<Rightarrow> load_state" where
  "save_slot p latest st =
     (let r = save_current_config p (env st latest)
      in st\<lparr>env := (env st)(latest := fst (snd r)), trace := trace st @ snd (snd r)\<rparr>)"

text \<open>Lines 302 to 346: the ranked leader and runner-up decide what is booted.\<close>

definition select_config ::
  "platform \<Rightarrow> BG_LOADER_PARAMS \<Rightarrow> load_state \<Rightarrow> load_result"
where
  "select_config p bglp st =
     (let next = rank_envdata st ! 0;
          prev = rank_envdata st ! 1
      in case next of
           None \<Rightarrow> \<lparr>status = BG_CONFIG_ERROR, params = bglp, final = st\<rparr>
         | Some latest \<Rightarrow>
             if in_progress (envdata (env st latest))
             then \<lparr>status = BG_CONFIG_ERROR, params = bglp, final = st\<rparr>
             else if ustate (envdata (env st latest)) = USTATE_TESTING
             then
               (let st1 = st\<lparr>env := (env st)(latest := (env st latest)
                               \<lparr>envdata := (envdata (env st latest))
                                  \<lparr>ustate := USTATE_FAILED, revision := REVISION_FAILED\<rparr>\<rparr>)\<rparr>;
                    st2 = save_slot p latest st1
                in case prev of
                     None \<Rightarrow> \<lparr>status = BG_CONFIG_ERROR, params = bglp, final = st2\<rparr>
                   | Some latest' \<Rightarrow> hand_over p bglp latest' st2)
             else if ustate (envdata (env st latest)) = USTATE_INSTALLED
             then
               (let st1 = st\<lparr>env := (env st)(latest := (env st latest)
                               \<lparr>envdata := (envdata (env st latest))
                                  \<lparr>ustate := USTATE_TESTING\<rparr>\<rparr>)\<rparr>
                in hand_over p bglp latest (save_slot p latest st1))
             else hand_over p bglp latest st)"

text \<open>
  load_config, given the parameters of the caller and the content of the stack slots on
  entry.
\<close>

definition load_config ::
  "platform \<Rightarrow> (nat \<Rightarrow> EnvDataVolume) \<Rightarrow> BG_LOADER_PARAMS \<Rightarrow> load_result"
where
  "load_config p env0 bglp =
     (if volume_count p = 0
      then \<lparr>status = BG_CONFIG_ERROR, params = bglp, final = init_state env0 False\<rparr>
      else if \<not> AllocatePool p (sizeof_UINTN p * volume_count p)
      then \<lparr>status = BG_CONFIG_ERROR, params = bglp, final = init_state env0 False\<rparr>
      else if EFI_ERROR (fst (enumerate_cfg_parts p))
      then \<lparr>status = BG_CONFIG_ERROR, params = bglp, final = init_state env0 False\<rparr>
      else
        (let config_volumes = filter_cfg_parts p (snd (enumerate_cfg_parts p));
             numHandles = length config_volumes;
             errored0 = (numHandles \<noteq> ENV_NUM_CONFIG_PARTS p)
         in select_config p bglp
              (rank_volumes p config_volumes (init_state env0 errored0))))"

text \<open>
  The part of load_config before the loop succeeds when there is a volume, the index
  vector is allocated and the enumeration returns no error; ranking is the state when
  the loop is left.
\<close>

definition enumerated :: "platform \<Rightarrow> bool" where
  "enumerated p =
     (if volume_count p = 0 then False
      else if AllocatePool p (sizeof_UINTN p * volume_count p)
      then \<not> EFI_ERROR (fst (enumerate_cfg_parts p)) else False)"

definition visited_volumes :: "platform \<Rightarrow> nat list" where
  "visited_volumes p = filter_cfg_parts p (snd (enumerate_cfg_parts p))"

definition ranking :: "platform \<Rightarrow> (nat \<Rightarrow> EnvDataVolume) \<Rightarrow> load_state" where
  "ranking p env0 =
     rank_volumes p (visited_volumes p)
       (init_state env0 (length (visited_volumes p) \<noteq> ENV_NUM_CONFIG_PARTS p))"

text \<open>The record a cell of rank_envdata points to.\<close>

definition ranked :: "load_state \<Rightarrow> nat \<Rightarrow> EnvDataVolume option" where
  "ranked st i = map_option (env st) (rank_envdata st ! i)"

text \<open>The calls that open a file for writing or write to it.\<close>

fun is_write_access :: "io_event \<Rightarrow> bool" where
  "is_write_access (IO_open r MODE_WRITE_READ) = True"
| "is_write_access (IO_write r n d) = True"
| "is_write_access _ = False"

section \<open>The order of preference, as the specification words it\<close>

text \<open>
  The rank of a state: INSTALLED is 0, TESTING is 1, OK is 2, anything else is 3.
\<close>

definition ustate_rank :: "ustate_t \<Rightarrow> nat" where
  "ustate_rank u =
     (if u = USTATE_INSTALLED then 0 else if u = USTATE_TESTING then 1
      else if u = USTATE_OK then 2 else 3)"

definition on_boot_volume :: "platform \<Rightarrow> EnvDataVolume \<Rightarrow> bool" where
  "on_boot_volume p c = IsOnBootVolume p (devpath (volumes p ! volume_index c))"

text \<open>
  preferred p x y: x is strictly preferred to y.  A present candidate beats an absent
  slot; then the one not in progress; then the higher revision; then the lower rank of
  the state; then the one on the boot volume; then the lower volume index.
\<close>

definition preferred ::
  "platform \<Rightarrow> EnvDataVolume option \<Rightarrow> EnvDataVolume option \<Rightarrow> bool"
where
  "preferred p x y =
     (case x of
        None \<Rightarrow> False
      | Some a \<Rightarrow>
          (case y of
             None \<Rightarrow> True
           | Some b \<Rightarrow>
               (if in_progress (envdata a) \<noteq> in_progress (envdata b)
                then \<not> in_progress (envdata a)
                else if revision (envdata a) \<noteq> revision (envdata b)
                then revision (envdata a) > revision (envdata b)
                else if ustate_rank (ustate (envdata a)) \<noteq> ustate_rank (ustate (envdata b))
                then ustate_rank (ustate (envdata a)) < ustate_rank (ustate (envdata b))
                else if on_boot_volume p a \<noteq> on_boot_volume p b
                then on_boot_volume p a
                else volume_index a < volume_index b)))"

text \<open>
  top_two p cs r0 r1: r0 is a most preferred candidate of cs, and r1 is a most preferred
  one of the candidates left when r0 is taken out; a slot is absent when there is no
  candidate for it.
\<close>

definition top_two ::
  "platform \<Rightarrow> EnvDataVolume list \<Rightarrow> EnvDataVolume option \<Rightarrow> EnvDataVolume option \<Rightarrow> bool"
where
  "top_two p cs r0 r1 =
     (case r0 of
        None \<Rightarrow> cs = [] \<and> r1 = None
      | Some a \<Rightarrow>
          a \<in> set cs \<and> (\<forall>c\<in>set cs. \<not> preferred p (Some c) (Some a)) \<and>
          (case r1 of
             None \<Rightarrow> remove1 a cs = []
           | Some b \<Rightarrow>
               b \<in> set (remove1 a cs) \<and>
               (\<forall>c\<in>set (remove1 a cs). \<not> preferred p (Some c) (Some b))))"

text \<open>
  The candidate a volume yields: the file opens, the read succeeds and returns the whole
  record, the checksum is computed and equals the stored one.  The candidates of a run
  are those of the volumes visited, in the order of the visit.
\<close>

definition loaded :: "platform \<Rightarrow> nat \<Rightarrow> EnvDataVolume option" where
  "loaded p vix =
     (let v = volumes p ! vix;
          rd = read_cfg_file p (root v) (sizeof_BG_ENVDATA p);
          buf = snd (snd rd);
          crc = CalculateCrc32 p (crc_region buf)
      in if EFI_ERROR (open_cfg_file p (root v) MODE_READ) then None
         else if EFI_ERROR (fst rd) then None
         else if fst (snd rd) \<noteq> sizeof_BG_ENVDATA p then None
         else if EFI_ERROR (fst crc) then None
         else if snd crc \<noteq> crc32 buf then None
         else Some \<lparr>volume_index = vix, envdata = terminate_strings p buf\<rparr>)"

definition candidates :: "platform \<Rightarrow> nat list \<Rightarrow> EnvDataVolume list" where
  "candidates p cfg = List.map_filter (loaded p) cfg"

text \<open>
  The verdict of a run that hands a record over, and the parameters that record gives.
\<close>

definition verdict :: "load_state \<Rightarrow> BG_STATUS" where
  "verdict st = (if errored st then BG_CONFIG_PARTIALLY_CORRUPTED else BG_SUCCESS)"

definition handed :: "platform \<Rightarrow> BG_LOADER_PARAMS \<Rightarrow> EnvDataVolume \<Rightarrow> BG_LOADER_PARAMS" where
  "handed p bglp c =
     bglp\<lparr>payload_path := StrDuplicate p (kernelfile (envdata c)),
          payload_options := StrDuplicate p (kernelparams (envdata c)),
          timeout := watchdog_timeout_sec (envdata c)\<rparr>"

text \<open>
  An anomaly is flagged before the selection when the number of volumes visited is not
  the expected one, or the load of a visited volume fails, or its file does not close.
\<close>

definition flagged :: "platform \<Rightarrow> bool" where
  "flagged p =
     (if length (visited_volumes p) \<noteq> ENV_NUM_CONFIG_PARTS p then True
      else list_ex
        (\<lambda>vix. if loaded p vix = None then True
               else EFI_ERROR (close_cfg_file p (root (volumes p ! vix)) MODE_READ))
        (visited_volumes p))"

text \<open>
  What decides between two candidates before the volume index does: two candidates with
  different keys are ordered the same way wherever their volumes stand in the array.
\<close>

definition tie_key :: "platform \<Rightarrow> EnvDataVolume \<Rightarrow> bool \<times> nat \<times> nat \<times> bool" where
  "tie_key p c =
     (in_progress (envdata c), revision (envdata c), ustate_rank (ustate (envdata c)),
      on_boot_volume p c)"

section \<open>Notions used in the proofs\<close>

text \<open>
  A candidate without its volume index, its key, the candidate a volume descriptor
  yields, and the parameters a leader and a runner-up lead to.
\<close>

definition cand_of :: "platform \<Rightarrow> EnvDataVolume \<Rightarrow> BG_ENVDATA \<times> bool" where
  "cand_of p c = (envdata c, on_boot_volume p c)"

definition cand_key :: "BG_ENVDATA \<times> bool \<Rightarrow> bool \<times> int \<times> nat \<times> bool" where
  "cand_key c =
     (in_progress (fst c), - int (revision (fst c)), ustate_rank (ustate (fst c)), \<not> snd c)"

definition vol_cand :: "platform \<Rightarrow> VOLUME_DESC \<Rightarrow> (BG_ENVDATA \<times> bool) option" where
  "vol_cand p v =
     (let rd = read_cfg_file p (root v) (sizeof_BG_ENVDATA p);
          buf = snd (snd rd);
          crc = CalculateCrc32 p (crc_region buf)
      in if EFI_ERROR (open_cfg_file p (root v) MODE_READ) then None
         else if EFI_ERROR (fst rd) then None
         else if fst (snd rd) \<noteq> sizeof_BG_ENVDATA p then None
         else if EFI_ERROR (fst crc) then None
         else if snd crc \<noteq> crc32 buf then None
         else Some (terminate_strings p buf, IsOnBootVolume p (devpath v)))"

definition chosen_params ::
  "platform \<Rightarrow> BG_LOADER_PARAMS \<Rightarrow> BG_ENVDATA option \<Rightarrow> BG_ENVDATA option \<Rightarrow> BG_LOADER_PARAMS"
where
  "chosen_params p bglp l r =
     (case l of
        None \<Rightarrow> bglp
      | Some d \<Rightarrow>
          if in_progress d then bglp
          else if ustate d = USTATE_TESTING
          then (case r of
                  None \<Rightarrow> bglp
                | Some d' \<Rightarrow>
                    bglp\<lparr>payload_path := StrDuplicate p (kernelfile d'),
                         payload_options := StrDuplicate p (kernelparams d'),
                         timeout := watchdog_timeout_sec d'\<rparr>)
          else bglp\<lparr>payload_path := StrDuplicate p (kernelfile d),
                    payload_options := StrDuplicate p (kernelparams d),
                    timeout := watchdog_timeout_sec d\<rparr>)"


text \<open>The order of preference is the order of these keys, compared from the left.\<close>

definition pref_key :: "platform \<Rightarrow> EnvDataVolume \<Rightarrow> bool \<times> int \<times> nat \<times> bool \<times> nat" where
  "pref_key p c =
     (in_progress (envdata c), - int (revision (envdata c)),
      ustate_rank (ustate (envdata c)), \<not> on_boot_volume p c, volume_index c)"

text \<open>
  top2 k M r0 r1: r0 has a least key among M, and r1 a least key among the rest of M.
\<close>

definition top2 :: "('a \<Rightarrow> 'k::linorder) \<Rightarrow> 'a multiset \<Rightarrow> 'a option \<Rightarrow> 'a option \<Rightarrow> bool" where
  "top2 k M r0 r1 =
     (case r0 of
        None \<Rightarrow> M = {#} \<and> r1 = None
      | Some a \<Rightarrow>
          a \<in># M \<and> (\<forall>c\<in>#M. k a \<le> k c) \<and>
          (case r1 of
             None \<Rightarrow> M - {#a#} = {#}
           | Some b \<Rightarrow> b \<in># M - {#a#} \<and> (\<forall>c\<in>#M - {#a#}. k b \<le> k c)))"

text \<open>One sift on the records themselves.\<close>

definition vsift ::
  "platform \<Rightarrow> EnvDataVolume option \<times> EnvDataVolume option
     \<Rightarrow> EnvDataVolume option \<times> EnvDataVolume option"
where
  "vsift p c = (if preferred p (snd c) (fst c) then (snd c, fst c) else c)"

text \<open>
  The pointers of rank_envdata are the slots taken from rsrv_envdata so far, each of
  them once.
\<close>

fun somes :: "'a option list \<Rightarrow> 'a list" where
  "somes [] = []"
| "somes (None # xs) = somes xs"
| "somes (Some x # xs) = x # somes xs"

definition ptr_ok :: "load_state \<Rightarrow> bool" where
  "ptr_ok st \<longleftrightarrow>
     length (rank_envdata st) = ENVSLOTS \<and> envrsrv st \<le> ENVSLOTS \<and>
     distinct (somes (rank_envdata st)) \<and>
     set (somes (rank_envdata st)) = {envrsrv st ..< ENVSLOTS}"

section \<open>Scenarios after the test suite\<close>

text \<open>
  The test suite of fatvars.c runs load_config on volumes whose file protocol serves
  a prepared record.  The platform below follows its doubles: every volume has a config
  file, the filter drops the volumes of the non-boot disk, a volume with no record
  reads zero bytes, and a write of any other size than the record's is refused.  The
  checksum of the suite (bgenv_crc32) is not among the sources; test_crc32 stands for
  it.
\<close>

definition boot_volume :: nat where
  "boot_volume = 1"

definition non_boot_volume :: nat where
  "non_boot_volume = 2"

definition non_boot_disk :: nat where
  "non_boot_disk = 3"

definition test_crc32 :: "BG_ENVDATA \<Rightarrow> 32 word" where
  "test_crc32 d =
     of_nat (revision d) * 31 + of_nat (watchdog_timeout_sec d) * 7 +
     of_nat (ustate_rank (ustate d)) * 3 + (if in_progress d then 1 else 0) + 5"

definition envdata_init :: "BG_ENVDATA \<Rightarrow> BG_ENVDATA" where
  "envdata_init d = d\<lparr>crc32 := test_crc32 (crc_region d)\<rparr>"

text \<open>A sealed record: its revision, in_progress, ustate and watchdog timeout.\<close>

definition test_envdata :: "nat \<Rightarrow> bool \<Rightarrow> ustate_t \<Rightarrow> nat \<Rightarrow> BG_ENVDATA" where
  "test_envdata rv ip us wd =
     envdata_init
       \<lparr>kernelfile = [107, of_nat wd, 0, 0], kernelparams = [112, of_nat rv, 0, 0],
        in_progress = ip, ustate = us, watchdog_timeout_sec = wd, revision = rv,
        crc32 = 0\<rparr>"

definition test_volume :: "nat \<Rightarrow> nat \<Rightarrow> VOLUME_DESC" where
  "test_volume dp r = \<lparr>devpath = dp, root = r\<rparr>"

definition test_platform :: "VOLUME_DESC list \<Rightarrow> (nat \<Rightarrow> BG_ENVDATA option) \<Rightarrow> platform" where
  "test_platform vols files =
     \<lparr>volumes = vols,
      AllocatePool = (\<lambda>size. True),
      enumerate_cfg_parts = (EFI_SUCCESS, [0 ..< length vols]),
      filter_cfg_parts = filter (\<lambda>vx. devpath (vols ! vx) \<noteq> non_boot_disk),
      IsOnBootVolume = (\<lambda>dp. dp = boot_volume),
      open_cfg_file = (\<lambda>r m. EFI_SUCCESS),
      read_cfg_file =
        (\<lambda>r n. case files r of
                  None \<Rightarrow> (EFI_SUCCESS, 0, test_envdata 0 False USTATE_OK 0)
                | Some d \<Rightarrow> (EFI_SUCCESS, n, d)),
      write_cfg_file =
        (\<lambda>r n d. if n = 1040 then (EFI_SUCCESS, n) else (EFI_BAD_BUFFER_SIZE, 0)),
      close_cfg_file = (\<lambda>r m. EFI_SUCCESS),
      CalculateCrc32 = (\<lambda>d. (EFI_SUCCESS, test_crc32 d)),
      StrDuplicate = (\<lambda>str. Some (takeWhile (\<lambda>c. c \<noteq> 0) str @ [0])),
      sizeof_BG_ENVDATA = 1040,
      sizeof_UINTN = 8,
      ENV_STRING_LENGTH = 4,
      ENV_NUM_CONFIG_PARTS = 2\<rparr>"

text \<open>What the stack slots and the caller's parameters hold on entry.\<close>

definition test_env0 :: "nat \<Rightarrow> EnvDataVolume" where
  "test_env0 = (\<lambda>i. \<lparr>volume_index = 77, envdata = test_envdata 9 True USTATE_UNKNOWN 9\<rparr>)"

definition test_bglp :: BG_LOADER_PARAMS where
  "test_bglp = \<lparr>payload_path = None, payload_options = None, timeout = 0\<rparr>"

text \<open>
  Four volumes: revision 1, a volume with no record, revision 3 and revision 2, all OK and
  not in progress.
\<close>

definition rank_files :: "nat \<Rightarrow> BG_ENVDATA option" where
  "rank_files =
     (\<lambda>r. if r = 10 then Some (test_envdata 1 False USTATE_OK 11)
          else if r = 12 then Some (test_envdata 3 False USTATE_OK 33)
          else if r = 13 then Some (test_envdata 2 False USTATE_OK 22)
          else None)"

definition rank_platform :: platform where
  "rank_platform =
     test_platform
       [test_volume non_boot_volume 10, test_volume non_boot_volume 11,
        test_volume non_boot_volume 12, test_volume non_boot_volume 13]
       rank_files"

text \<open>
  Two volumes off the boot volume, the first with the record a and the second with b.
\<close>

definition two_volumes :: "VOLUME_DESC list" where
  "two_volumes = [test_volume non_boot_volume 10, test_volume non_boot_volume 11]"

definition two_files :: "BG_ENVDATA \<Rightarrow> BG_ENVDATA \<Rightarrow> nat \<Rightarrow> BG_ENVDATA option" where
  "two_files a b = (\<lambda>r. if r = 10 then Some a else if r = 11 then Some b else None)"

definition testing_platform :: platform where
  "testing_platform =
     test_platform two_volumes
       (two_files (test_envdata 2 False USTATE_TESTING 11) (test_envdata 1 False USTATE_OK 99))"

definition installed_platform :: platform where
  "installed_platform =
     test_platform two_volumes
       (two_files (test_envdata 2 False USTATE_INSTALLED 11) (test_envdata 1 False USTATE_OK 99))"

definition failed_platform :: platform where
  "failed_platform =
     test_platform two_volumes
       (two_files (test_envdata 2 False USTATE_FAILED 11) (test_envdata 1 False USTATE_OK 99))"

definition in_progress_platform :: platform where
  "in_progress_platform =
     test_platform two_volumes
       (two_files (test_envdata 1 True USTATE_OK 11) (test_envdata 1 True USTATE_OK 11))"

definition fallback_platform :: platform where
  "fallback_platform =
     test_platform two_volumes
       (two_files (test_envdata 1 False USTATE_TESTING 11) (test_envdata 5 True USTATE_OK 99))"

definition write_denied_platform :: platform where
  "write_denied_platform =
     installed_platform
       \<lparr>open_cfg_file := (\<lambda>r m. if m = MODE_WRITE_READ then EFI_ERR 8 else EFI_SUCCESS)\<rparr>"

definition short_write_platform :: platform where
  "short_write_platform = installed_platform\<lparr>write_cfg_file := (\<lambda>r n d. (EFI_SUCCESS, 0))\<rparr>"

definition close_failing_platform :: platform where
  "close_failing_platform =
     rank_platform\<lparr>close_cfg_file := (\<lambda>r m. if r = 12 then EFI_ERR 7 else EFI_SUCCESS)\<rparr>"

definition demotion_denied_platform :: platform where
  "demotion_denied_platform =
     testing_platform
       \<lparr>open_cfg_file := (\<lambda>r m. if m = MODE_WRITE_READ then EFI_ERR 8 else EFI_SUCCESS)\<rparr>"

text \<open>
  Two volumes on the boot volume whose records agree on in_progress, revision and state
  and differ in the watchdog timeout, and the same volumes in the other order.
\<close>

definition boot_volumes :: "VOLUME_DESC list" where
  "boot_volumes = [test_volume boot_volume 10, test_volume boot_volume 11]"

definition tie_platform :: platform where
  "tie_platform =
     test_platform boot_volumes
       (two_files (test_envdata 1 False USTATE_OK 11) (test_envdata 1 False USTATE_OK 99))"

definition tie_platform_shuffled :: platform where
  "tie_platform_shuffled =
     test_platform (rev boot_volumes)
       (two_files (test_envdata 1 False USTATE_OK 11) (test_envdata 1 False USTATE_OK 99))"

text \<open>
  One volume more than expected: the first holds the record of revision 2, the other two
  hold one and the same record of revision 1.  Then the same volumes in another order.
\<close>

definition extra_files :: "nat \<Rightarrow> BG_ENVDATA option" where
  "extra_files =
     (\<lambda>r. if r = 10 then Some (test_envdata 2 False USTATE_OK 11)
          else if r = 11 then Some (test_envdata 1 False USTATE_OK 99)
          else if r = 12 then Some (test_envdata 1 False USTATE_OK 99)
          else None)"

definition extra_platform :: platform where
  "extra_platform =
     test_platform
       [test_volume non_boot_volume 10, test_volume non_boot_volume 11,
        test_volume non_boot_volume 12]
       extra_files"

definition extra_platform_shuffled :: platform where
  "extra_platform_shuffled =
     test_platform
       [test_volume non_boot_volume 12, test_volume non_boot_volume 10,
        test_volume non_boot_volume 11]
       extra_files"


section \<open>The order and the sift\<close>

lemma preferred_None [simp]: "preferred p None y = False"
  by (simp add: preferred_def)

lemma preferred_Some_None [simp]: "preferred p (Some a) None = True"
  by (simp add: preferred_def)

lemma preferred_key: "preferred p (Some a) (Some b) \<longleftrightarrow> pref_key p a < pref_key p b"
  by (auto simp: preferred_def pref_key_def less_prod_def less_eq_prod_def)

lemma rank_word_less:
  "config_state_ranking (Some d) < config_state_ranking (Some d') \<longleftrightarrow>
     ustate_rank (ustate d) < ustate_rank (ustate d')"
  by (cases "ustate d"; cases "ustate d'")
     (simp_all add: config_state_ranking_def ustate_rank_def)

lemma rank_word_eq:
  "config_state_ranking (Some d) = config_state_ranking (Some d') \<longleftrightarrow>
     ustate_rank (ustate d) = ustate_rank (ustate d')"
  by (cases "ustate d"; cases "ustate d'")
     (simp_all add: config_state_ranking_def ustate_rank_def)

lemma sift_refines:
  "sift_envdata_volume p e (l, r) =
     (if preferred p (map_option e r) (map_option e l) then (r, l) else (l, r))"
proof (cases r)
  case None
  then show ?thesis by (cases l) (simp_all add: sift_envdata_volume_def)
next
  case (Some j)
  show ?thesis
  proof (cases l)
    case None
    with Some show ?thesis by (simp add: sift_envdata_volume_def)
  next
    case (Some i)
    with \<open>r = Some j\<close> show ?thesis
      by (auto simp: sift_envdata_volume_def preferred_def Let_def rank_word_less
            rank_word_eq on_boot_volume_def)
  qed
qed

lemma sift_vals:
  "map_option e (fst (sift_envdata_volume p e (l, r))) =
     fst (vsift p (map_option e l, map_option e r))"
  "map_option e (snd (sift_envdata_volume p e (l, r))) =
     snd (vsift p (map_option e l, map_option e r))"
  by (simp_all add: sift_refines vsift_def)

subsection \<open>Keeping the best two of a multiset\<close>

lemma top_two_mset: "top_two p cs r0 r1 = top2 (pref_key p) (mset cs) r0 r1"
proof -
  have s: "set (remove1 a cs) = set_mset (mset cs - {#a#})" for a
    by (metis mset_remove1 set_mset_mset)
  have e: "(remove1 a cs = []) = (mset cs - {#a#} = {#})" for a
    by (metis mset_remove1 mset_zero_iff)
  show ?thesis
    by (simp add: top_two_def top2_def preferred_key s e not_less
          split: option.splits)
qed

lemma top2_insert:
  assumes "top2 (pref_key p) M va vb"
  shows "top2 (pref_key p) (add_mset c M)
           (fst (vsift p (va, fst (vsift p (vb, Some c)))))
           (snd (vsift p (va, fst (vsift p (vb, Some c)))))"
proof (cases va)
  case None
  with assms show ?thesis by (simp add: top2_def vsift_def)
next
  case a: (Some a)
  show ?thesis
  proof (cases vb)
    case None
    with a assms have M: "M = {#a#}"
      by (auto simp: top2_def dest: multi_member_split)
    with a None show ?thesis
      by (auto simp: top2_def vsift_def preferred_key)
  next
    case b: (Some b)
    from a b assms obtain R where M: "M = add_mset a R" and bR: "b \<in># R"
      and amin: "\<forall>c\<in>#M. pref_key p a \<le> pref_key p c"
      and bmin: "\<forall>c\<in>#R. pref_key p b \<le> pref_key p c"
      by (auto simp: top2_def dest!: multi_member_split)
    have ab: "pref_key p a \<le> pref_key p b" using amin bR M by simp
    have d1: "add_mset c (add_mset a R) - {#a#} = add_mset c R" by simp
    have d2: "add_mset c (add_mset a R) - {#c#} = add_mset a R" by simp
    show ?thesis
    proof (cases "pref_key p c < pref_key p b")
      case cb: True
      show ?thesis
      proof (cases "pref_key p c < pref_key p a")
        case True
        with cb a b M amin bmin bR ab show ?thesis
          by (auto simp: top2_def vsift_def preferred_key d2)
      next
        case False
        with cb a b M amin bmin bR ab show ?thesis
          by (auto simp: top2_def vsift_def preferred_key d1)
      qed
    next
      case False
      with a b M amin bmin bR ab show ?thesis
        by (auto simp: top2_def vsift_def preferred_key d1)
    qed
  qed
qed

section \<open>Reading a volume\<close>

lemma EFI_ERROR_consts [simp]: "EFI_ERROR EFI_BAD_BUFFER_SIZE" "EFI_ERROR EFI_CRC_ERROR"
  by (simp_all add: EFI_BAD_BUFFER_SIZE_def EFI_CRC_ERROR_def)

lemma read_config_status:
  "EFI_ERROR (fst (snd (read_config p e (volumes p ! vix) d0))) = (loaded p vix = None)"
  by (simp add: read_config_def loaded_def Let_def)

lemma read_config_buf:
  "loaded p vix = Some c \<Longrightarrow>
   c = \<lparr>volume_index = vix,
        envdata = terminate_strings p
          (fst (snd (snd (read_config p e (volumes p ! vix) d0))))\<rparr>"
  by (auto simp: read_config_def loaded_def Let_def split: if_splits)

lemma candidates_Cons:
  "candidates p (vix # cfg) =
     (case loaded p vix of None \<Rightarrow> [] | Some c \<Rightarrow> [c]) @ candidates p cfg"
  by (simp add: candidates_def List.map_filter_def split: option.splits)

lemma candidates_snoc:
  "candidates p (cfg @ [vix]) =
     candidates p cfg @ (case loaded p vix of None \<Rightarrow> [] | Some c \<Rightarrow> [c])"
  by (simp add: candidates_def List.map_filter_def split: option.splits)

section \<open>The slots and the pointers to them\<close>

lemma len3: "length xs = 3 \<Longrightarrow> \<exists>a b c. xs = [a, b, c]"
  by (cases xs; simp; cases "tl xs"; simp; cases "tl (tl xs)"; simp)

lemma mset_somes:
  "mset (somes xs) = image_mset the (filter_mset (\<lambda>x. x \<noteq> None) (mset xs))"
  by (induction xs rule: somes.induct) simp_all

lemma somes_perm:
  assumes "mset xs = mset ys"
  shows "distinct (somes xs) = distinct (somes ys)" and "set (somes xs) = set (somes ys)"
proof -
  have "mset (somes xs) = mset (somes ys)" using assms by (simp add: mset_somes)
  then show "distinct (somes xs) = distinct (somes ys)" "set (somes xs) = set (somes ys)"
    by (rule mset_eq_imp_distinct_iff, rule mset_eq_setD)
qed

lemma ptr_ok_init: "ptr_ok (init_state env0 e)"
  by (simp add: ptr_ok_def init_state_def ENVSLOTS_def numeral_3_eq_3)

lemma claim_slot_ok:
  assumes "ptr_ok st"
  shows "ptr_ok (claim_slot st)"
    and "\<exists>s. rank_envdata (claim_slot st) ! 2 = Some s \<and>
             rank_envdata (claim_slot st) ! 0 \<noteq> Some s \<and>
             rank_envdata (claim_slot st) ! 1 \<noteq> Some s"
    and "rank_envdata (claim_slot st) ! 0 = rank_envdata st ! 0"
    and "rank_envdata (claim_slot st) ! 1 = rank_envdata st ! 1"
    and "env (claim_slot st) = env st"
    and "errored (claim_slot st) = errored st"
    and "trace (claim_slot st) = trace st"
proof -
  from assms have "length (rank_envdata st) = 3"
    by (simp add: ptr_ok_def ENVSLOTS_def)
  then obtain a b c where r: "rank_envdata st = [a, b, c]"
    using len3 by blast
  from assms have d: "distinct (somes [a, b, c])"
    and s: "set (somes [a, b, c]) = {envrsrv st ..< 3}" and le: "envrsrv st \<le> 3"
    by (simp_all add: ptr_ok_def ENVSLOTS_def r)
  have L: "length (somes [a, b, c]) = 3 - envrsrv st"
    using d s by (metis distinct_card card_atLeastLessThan)
  have both: "ptr_ok (claim_slot st) \<and>
     (\<exists>s. rank_envdata (claim_slot st) ! 2 = Some s \<and>
             rank_envdata (claim_slot st) ! 0 \<noteq> Some s \<and>
             rank_envdata (claim_slot st) ! 1 \<noteq> Some s)"
  proof (cases c)
    case (Some x)
    then have "claim_slot st = st"
      by (simp add: claim_slot_def ENVSLOTS_def r)
    moreover have "a \<noteq> Some x" "b \<noteq> Some x"
      using d Some by (cases a; cases b; auto)+
    ultimately show ?thesis using assms r Some by simp
  next
    case None
    then have "length (somes [a, b, c]) \<le> 2"
      by (cases a; cases b; simp)
    with L le have pos: "0 < envrsrv st" by arith
    define k where "k = envrsrv st - 1"
    have rs: "rsrv_envdata ! k = k"
      using le pos by (simp add: rsrv_envdata_def ENVSLOTS_def k_def)
    have c': "claim_slot st = st\<lparr>envrsrv := k, rank_envdata := [a, b, Some k]\<rparr>"
      using None rs by (simp add: claim_slot_def ENVSLOTS_def r k_def)
    have sm: "somes [a, b, Some k] = somes [a, b, c] @ [k]"
      using None by (cases a; cases b; simp)
    have notin: "k \<notin> set (somes [a, b, c])"
      using s pos by (simp add: k_def)
    have set': "insert k {envrsrv st ..< 3} = {k ..< 3}"
      using pos le by (auto simp: k_def)
    have "k \<le> 3" using le by (simp add: k_def)
    then have "ptr_ok (claim_slot st)"
      using d s notin set' by (simp add: c' ptr_ok_def ENVSLOTS_def sm)
    moreover have "a \<noteq> Some k" "b \<noteq> Some k"
      using notin by (cases a; cases b; auto)+
    ultimately show ?thesis by (simp add: c')
  qed
  from both show "ptr_ok (claim_slot st)" by simp
  from both show "\<exists>s. rank_envdata (claim_slot st) ! 2 = Some s \<and>
             rank_envdata (claim_slot st) ! 0 \<noteq> Some s \<and>
             rank_envdata (claim_slot st) ! 1 \<noteq> Some s" by simp
  show "rank_envdata (claim_slot st) ! 0 = rank_envdata st ! 0"
    using r by (simp add: claim_slot_def ENVSLOTS_def)
  show "rank_envdata (claim_slot st) ! 1 = rank_envdata st ! 1"
    using r by (simp add: claim_slot_def ENVSLOTS_def)
  show "env (claim_slot st) = env st" "errored (claim_slot st) = errored st"
    "trace (claim_slot st) = trace st"
    by (simp_all add: claim_slot_def Let_def)
qed

lemma ptr_ok_leader_runner_up:
  assumes "ptr_ok st" and "rank_envdata st ! 0 = Some n" and "rank_envdata st ! 1 = Some m"
  shows "n \<noteq> m"
proof -
  from assms(1) have "length (rank_envdata st) = 3"
    by (simp add: ptr_ok_def ENVSLOTS_def)
  then obtain a b c where r: "rank_envdata st = [a, b, c]"
    using len3 by blast
  from assms(1) have "distinct (somes [a, b, c])"
    by (simp add: ptr_ok_def r)
  with assms(2,3) r show ?thesis by auto
qed

section \<open>The loop over the volumes\<close>

lemma sift_loop_3:
  "sift_loop p e 2 [a, b, c] =
     [fst (sift_envdata_volume p e (a, fst (sift_envdata_volume p e (b, c)))),
      snd (sift_envdata_volume p e (a, fst (sift_envdata_volume p e (b, c)))),
      snd (sift_envdata_volume p e (b, c))]"
  by (simp add: numeral_2_eq_2 Let_def)

lemma sift_loop_3_perm: "mset (sift_loop p e 2 [a, b, c]) = mset [a, b, c]"
  by (simp add: sift_loop_3 sift_refines)

lemma load_step_cases:
  "load_step p vix st =
     (let st1 = claim_slot st;
          slot = the (rank_envdata st1 ! 2);
          rd = read_config p False (volumes p ! vix) (envdata (env st1 slot))
      in case loaded p vix of
           None \<Rightarrow>
             st1\<lparr>env := (env st1)
                   (slot := \<lparr>volume_index = vix, envdata = fst (snd (snd rd))\<rparr>),
                 errored := (errored st1 \<or> fst rd),
                 trace := trace st1 @ snd (snd (snd rd))\<rparr>
         | Some c \<Rightarrow>
             st1\<lparr>env := (env st1)(slot := c),
                 errored := (errored st1 \<or> fst rd),
                 trace := trace st1 @ snd (snd (snd rd)),
                 rank_envdata :=
                   sift_loop p ((env st1)(slot := c)) 2 (rank_envdata st1)\<rparr>)"
proof (cases "loaded p vix")
  case None
  then show ?thesis
    by (simp add: load_step_def Let_def ENVSLOTS_def read_config_status)
next
  case (Some c)
  then have "\<not> EFI_ERROR (fst (snd (read_config p e (volumes p ! vix) d0)))" for e d0
    by (simp add: read_config_status)
  with Some read_config_buf[OF Some, symmetric] show ?thesis
    by (simp add: load_step_def Let_def ENVSLOTS_def)
qed

lemma load_step_inv:
  assumes ok: "ptr_ok st"
  shows "ptr_ok (load_step p vix st)"
    and "loaded p vix = None \<Longrightarrow>
           ranked (load_step p vix st) 0 = ranked st 0 \<and>
           ranked (load_step p vix st) 1 = ranked st 1"
    and "loaded p vix = Some c \<Longrightarrow>
           ranked (load_step p vix st) 0 =
             fst (vsift p (ranked st 0, fst (vsift p (ranked st 1, Some c)))) \<and>
           ranked (load_step p vix st) 1 =
             snd (vsift p (ranked st 0, fst (vsift p (ranked st 1, Some c))))"
proof -
  define st1 where "st1 = claim_slot st"
  have ok1: "ptr_ok st1" using ok by (simp add: st1_def claim_slot_ok)
  then have "length (rank_envdata st1) = 3" by (simp add: ptr_ok_def ENVSLOTS_def)
  then obtain a b c0 where r: "rank_envdata st1 = [a, b, c0]" using len3 by blast
  from claim_slot_ok(2)[OF ok] obtain s
    where s: "c0 = Some s" "a \<noteq> Some s" "b \<noteq> Some s"
    using r by (auto simp: st1_def)
  have a0: "rank_envdata st ! 0 = a" and b0: "rank_envdata st ! 1 = b"
    using claim_slot_ok(3,4)[OF ok] r by (simp_all add: st1_def)
  have e1: "env st1 = env st" by (simp add: st1_def claim_slot_ok(5)[OF ok])
  have va: "map_option ((env st)(s := x)) a = ranked st 0" for x
    using s a0 by (cases a) (auto simp: ranked_def)
  have vb: "map_option ((env st)(s := x)) b = ranked st 1" for x
    using s b0 by (cases b) (auto simp: ranked_def)
  have perm: "mset (sift_loop p e 2 [a, b, c0]) = mset [a, b, c0]" for e
    by (rule sift_loop_3_perm)
  have len: "length (sift_loop p e 2 [a, b, c0]) = 3" for e
    using mset_eq_length[OF perm[of e]] by simp
  show "ptr_ok (load_step p vix st)"
    using ok1 r len somes_perm[OF perm]
    by (simp add: load_step_cases Let_def st1_def[symmetric] ENVSLOTS_def ptr_ok_def
          split: option.splits)
  show "ranked (load_step p vix st) 0 = ranked st 0 \<and>
        ranked (load_step p vix st) 1 = ranked st 1" if "loaded p vix = None"
    using that r s va vb
    by (simp add: load_step_cases Let_def st1_def[symmetric] ranked_def e1)
  show "ranked (load_step p vix st) 0 =
          fst (vsift p (ranked st 0, fst (vsift p (ranked st 1, Some c)))) \<and>
        ranked (load_step p vix st) 1 =
          snd (vsift p (ranked st 0, fst (vsift p (ranked st 1, Some c))))"
    if "loaded p vix = Some c"
    using that r s va[of c] vb[of c]
    by (simp add: load_step_cases Let_def st1_def[symmetric] ranked_def e1 sift_loop_3
          sift_vals)
qed

lemma rank_volumes_inv:
  assumes "ptr_ok st0" and "top_two p cs0 (ranked st0 0) (ranked st0 1)"
  shows "ptr_ok (rank_volumes p cfg st0) \<and>
         top_two p (cs0 @ candidates p cfg)
           (ranked (rank_volumes p cfg st0) 0) (ranked (rank_volumes p cfg st0) 1)"
  using assms
proof (induction cfg arbitrary: st0 cs0)
  case Nil
  then show ?case by (simp add: rank_volumes_def candidates_def)
next
  case (Cons vix cfg)
  have ok': "ptr_ok (load_step p vix st0)"
    using Cons.prems(1) by (rule load_step_inv(1))
  have tt: "top_two p (cs0 @ (case loaded p vix of None \<Rightarrow> [] | Some c \<Rightarrow> [c]))
     (ranked (load_step p vix st0) 0) (ranked (load_step p vix st0) 1)"
  proof (cases "loaded p vix")
    case None
    with load_step_inv(2)[OF Cons.prems(1) None] Cons.prems(2) show ?thesis by simp
  next
    case (Some c)
    from top2_insert[of p "mset cs0" _ _ c] Cons.prems(2)
      load_step_inv(3)[OF Cons.prems(1) Some]
    show ?thesis by (simp add: Some top_two_mset)
  qed
  from Cons.IH[OF ok' tt] show ?case
    by (simp add: rank_volumes_def candidates_Cons)
qed

lemma rank_volumes_init:
  "ptr_ok (rank_volumes p cfg (init_state env0 e)) \<and>
   top_two p (candidates p cfg)
     (ranked (rank_volumes p cfg (init_state env0 e)) 0)
     (ranked (rank_volumes p cfg (init_state env0 e)) 1)"
proof -
  have "top_two p [] (ranked (init_state env0 e) 0) (ranked (init_state env0 e) 1)"
    by (simp add: top_two_def ranked_def init_state_def ENVSLOTS_def numeral_3_eq_3)
  from rank_volumes_inv[OF ptr_ok_init this] show ?thesis by simp
qed

section \<open>The run as a whole\<close>

lemma load_config_enumerated:
  "enumerated p \<Longrightarrow> load_config p env0 bglp = select_config p bglp (ranking p env0)"
  by (simp add: enumerated_def load_config_def ranking_def visited_volumes_def Let_def
        split: if_splits)

lemma load_config_not_enumerated:
  "\<not> enumerated p \<Longrightarrow>
     load_config p env0 bglp =
       \<lparr>status = BG_CONFIG_ERROR, params = bglp, final = init_state env0 False\<rparr>"
  by (simp add: enumerated_def load_config_def split: if_splits)

lemma ptr_ok_ranking: "ptr_ok (ranking p env0)"
  using rank_volumes_init by (simp add: ranking_def)

lemma read_config_no_write:
  "filter is_write_access (snd (snd (snd (read_config p e v d0)))) = []"
  by (simp add: read_config_def Let_def)

lemma load_step_no_write:
  "filter is_write_access (trace (load_step p vix st)) = filter is_write_access (trace st)"
  by (simp add: load_step_def Let_def claim_slot_def read_config_no_write)

lemma rank_volumes_no_write:
  "filter is_write_access (trace (rank_volumes p cfg st)) = filter is_write_access (trace st)"
  by (induction cfg arbitrary: st) (simp_all add: rank_volumes_def load_step_no_write)

lemma ranking_no_write: "filter is_write_access (trace (ranking p env0)) = []"
  by (simp add: ranking_def rank_volumes_no_write init_state_def)

lemma save_current_config_fields:
  "volume_index (fst (snd (save_current_config p e))) = volume_index e"
  "kernelfile (envdata (fst (snd (save_current_config p e)))) = kernelfile (envdata e)"
  "kernelparams (envdata (fst (snd (save_current_config p e)))) = kernelparams (envdata e)"
  "in_progress (envdata (fst (snd (save_current_config p e)))) = in_progress (envdata e)"
  "ustate (envdata (fst (snd (save_current_config p e)))) = ustate (envdata e)"
  "watchdog_timeout_sec (envdata (fst (snd (save_current_config p e)))) =
     watchdog_timeout_sec (envdata e)"
  "revision (envdata (fst (snd (save_current_config p e)))) = revision (envdata e)"
  by (simp_all add: save_current_config_def Let_def)

lemma save_current_config_written:
  assumes "\<not> EFI_ERROR (open_cfg_file p (root (volumes p ! volume_index e)) MODE_WRITE_READ)"
    and "\<not> EFI_ERROR (fst (CalculateCrc32 p (crc_region (envdata e))))"
  shows "fst (snd (save_current_config p e)) =
           e\<lparr>envdata := (envdata e)\<lparr>crc32 := snd (CalculateCrc32 p (crc_region (envdata e)))\<rparr>\<rparr>"
    and "snd (snd (save_current_config p e)) =
           [IO_open (root (volumes p ! volume_index e)) MODE_WRITE_READ,
            IO_write (root (volumes p ! volume_index e)) (sizeof_BG_ENVDATA p)
              ((envdata e)\<lparr>crc32 := snd (CalculateCrc32 p (crc_region (envdata e)))\<rparr>),
            IO_close (root (volumes p ! volume_index e))]"
  using assms by (simp_all add: save_current_config_def Let_def)

lemma save_current_config_status:
  "fst (save_current_config p e) = BG_SUCCESS \<longleftrightarrow>
     \<not> EFI_ERROR (open_cfg_file p (root (volumes p ! volume_index e)) MODE_WRITE_READ) \<and>
     \<not> EFI_ERROR (fst (CalculateCrc32 p (crc_region (envdata e)))) \<and>
     \<not> EFI_ERROR (fst (write_cfg_file p (root (volumes p ! volume_index e))
          (sizeof_BG_ENVDATA p)
          ((envdata e)\<lparr>crc32 := snd (CalculateCrc32 p (crc_region (envdata e)))\<rparr>))) \<and>
     \<not> EFI_ERROR (close_cfg_file p (root (volumes p ! volume_index e)) MODE_WRITE_READ)"
  by (simp add: save_current_config_def Let_def)

subsection \<open>The selection, by cases on the leader\<close>

lemma select_no_leader:
  assumes "case ranked st 0 of None \<Rightarrow> True | Some c \<Rightarrow> in_progress (envdata c)"
  shows "select_config p bglp st = \<lparr>status = BG_CONFIG_ERROR, params = bglp, final = st\<rparr>"
  using assms by (auto simp: select_config_def ranked_def Let_def split: option.splits)

lemma select_testing:
  assumes ok: "ptr_ok st"
    and l: "ranked st 0 = Some leader"
    and np: "\<not> in_progress (envdata leader)"
    and t: "ustate (envdata leader) = USTATE_TESTING"
  shows "ranked (final (select_config p bglp st)) 0 =
           Some (fst (snd (save_current_config p
             (leader\<lparr>envdata := (envdata leader)
                \<lparr>ustate := USTATE_FAILED, revision := REVISION_FAILED\<rparr>\<rparr>))))"
    and "trace (final (select_config p bglp st)) =
           trace st @ snd (snd (save_current_config p
             (leader\<lparr>envdata := (envdata leader)
                \<lparr>ustate := USTATE_FAILED, revision := REVISION_FAILED\<rparr>\<rparr>)))"
    and "ranked st 1 = None \<Longrightarrow>
           status (select_config p bglp st) = BG_CONFIG_ERROR \<and>
           params (select_config p bglp st) = bglp"
    and "ranked st 1 = Some runner_up \<Longrightarrow>
           status (select_config p bglp st) = verdict st \<and>
           params (select_config p bglp st) = handed p bglp runner_up"
proof -
  from l obtain n where n: "rank_envdata st ! 0 = Some n" "env st n = leader"
    by (auto simp: ranked_def)
  show "ranked (final (select_config p bglp st)) 0 =
           Some (fst (snd (save_current_config p
             (leader\<lparr>envdata := (envdata leader)
                \<lparr>ustate := USTATE_FAILED, revision := REVISION_FAILED\<rparr>\<rparr>))))"
    using n np t
    by (simp add: select_config_def Let_def save_slot_def hand_over_def ranked_def
          split: option.splits)
  show "trace (final (select_config p bglp st)) =
           trace st @ snd (snd (save_current_config p
             (leader\<lparr>envdata := (envdata leader)
                \<lparr>ustate := USTATE_FAILED, revision := REVISION_FAILED\<rparr>\<rparr>)))"
    using n np t
    by (simp add: select_config_def Let_def save_slot_def hand_over_def
          split: option.splits)
  show "status (select_config p bglp st) = BG_CONFIG_ERROR \<and>
           params (select_config p bglp st) = bglp" if "ranked st 1 = None"
    using n np t that
    by (simp add: select_config_def Let_def save_slot_def ranked_def)
  show "status (select_config p bglp st) = verdict st \<and>
           params (select_config p bglp st) = handed p bglp runner_up"
    if "ranked st 1 = Some runner_up"
  proof -
    from that obtain m where m: "rank_envdata st ! 1 = Some m" "env st m = runner_up"
      by (auto simp: ranked_def)
    from ptr_ok_leader_runner_up[OF ok n(1) m(1)] have "n \<noteq> m" .
    with n m np t show ?thesis
      by (simp add: select_config_def Let_def save_slot_def hand_over_def verdict_def
            handed_def)
  qed
qed

lemma select_installed:
  assumes l: "ranked st 0 = Some leader"
    and np: "\<not> in_progress (envdata leader)"
    and t: "ustate (envdata leader) = USTATE_INSTALLED"
  shows "ranked (final (select_config p bglp st)) 0 =
           Some (fst (snd (save_current_config p
             (leader\<lparr>envdata := (envdata leader)\<lparr>ustate := USTATE_TESTING\<rparr>\<rparr>))))"
    and "trace (final (select_config p bglp st)) =
           trace st @ snd (snd (save_current_config p
             (leader\<lparr>envdata := (envdata leader)\<lparr>ustate := USTATE_TESTING\<rparr>\<rparr>)))"
    and "status (select_config p bglp st) = verdict st"
    and "params (select_config p bglp st) = handed p bglp leader"
proof -
  from l obtain n where n: "rank_envdata st ! 0 = Some n" "env st n = leader"
    by (auto simp: ranked_def)
  show "ranked (final (select_config p bglp st)) 0 =
           Some (fst (snd (save_current_config p
             (leader\<lparr>envdata := (envdata leader)\<lparr>ustate := USTATE_TESTING\<rparr>\<rparr>))))"
    using n np t
    by (simp add: select_config_def Let_def save_slot_def hand_over_def ranked_def)
  show "trace (final (select_config p bglp st)) =
           trace st @ snd (snd (save_current_config p
             (leader\<lparr>envdata := (envdata leader)\<lparr>ustate := USTATE_TESTING\<rparr>\<rparr>)))"
    using n np t
    by (simp add: select_config_def Let_def save_slot_def hand_over_def)
  show "status (select_config p bglp st) = verdict st"
    using n np t
    by (simp add: select_config_def Let_def save_slot_def hand_over_def verdict_def)
  show "params (select_config p bglp st) = handed p bglp leader"
    using n np t
    by (simp add: select_config_def Let_def save_slot_def hand_over_def handed_def
          save_current_config_fields)
qed

lemma select_other:
  assumes l: "ranked st 0 = Some leader"
    and np: "\<not> in_progress (envdata leader)"
    and t: "ustate (envdata leader) \<noteq> USTATE_TESTING"
    and i: "ustate (envdata leader) \<noteq> USTATE_INSTALLED"
  shows "select_config p bglp st =
           \<lparr>status = verdict st, params = handed p bglp leader, final = st\<rparr>"
  using assms
  by (auto simp: select_config_def Let_def hand_over_def verdict_def handed_def ranked_def)

lemma read_config_flag:
  "fst (read_config p False (volumes p ! vix) d0) =
     (if loaded p vix = None then True
      else EFI_ERROR (close_cfg_file p (root (volumes p ! vix)) MODE_READ))"
  by (simp add: read_config_def loaded_def Let_def)

lemma load_step_errored:
  "errored (load_step p vix st) =
     (errored st \<or> (if loaded p vix = None then True
      else EFI_ERROR (close_cfg_file p (root (volumes p ! vix)) MODE_READ)))"
  by (simp add: load_step_cases Let_def read_config_flag claim_slot_def split: option.splits)

lemma rank_volumes_errored:
  "errored (rank_volumes p cfg st) =
     (errored st \<or> list_ex
        (\<lambda>vix. if loaded p vix = None then True
               else EFI_ERROR (close_cfg_file p (root (volumes p ! vix)) MODE_READ)) cfg)"
  by (induction cfg arbitrary: st) (auto simp: rank_volumes_def load_step_errored)

lemma errored_ranking: "errored (ranking p env0) = flagged p"
  by (simp add: ranking_def rank_volumes_errored flagged_def init_state_def)

lemma verdict_ranking:
  "verdict (ranking p env0) =
     (if flagged p then BG_CONFIG_PARTIALLY_CORRUPTED else BG_SUCCESS)"
  by (simp add: verdict_def errored_ranking)

lemma rank_volumes_snoc:
  "rank_volumes p (cfg @ [vix]) st = load_step p vix (rank_volumes p cfg st)"
  by (simp add: rank_volumes_def)

section \<open>Least elements when equal keys mean equal members\<close>

lemma top2_unique:
  fixes k :: "'a \<Rightarrow> 'k::linorder"
  assumes d: "\<And>x y. x \<in># N \<Longrightarrow> y \<in># N \<Longrightarrow> k x = k y \<Longrightarrow> x = y"
    and x: "top2 k N r0 r1" and y: "top2 k N s0 s1"
  shows "r0 = s0 \<and> r1 = s1"
proof (cases r0)
  case None
  with x y show ?thesis
    by (auto simp: top2_def split: option.splits)
next
  case r: (Some a)
  with x y obtain b where s: "s0 = Some b"
    by (cases s0) (auto simp: top2_def)
  from r s x y have m: "a \<in># N" "b \<in># N" "k a \<le> k b" "k b \<le> k a"
    by (simp_all add: top2_def)
  from d[OF m(1,2)] m(3,4) have ab: "a = b"
    by simp
  show ?thesis
  proof (cases r1)
    case None
    with r s ab x y show ?thesis
      by (cases s1) (auto simp: top2_def)
  next
    case r1: (Some c)
    with r s ab x y obtain e where s1: "s1 = Some e"
      by (cases s1) (auto simp: top2_def)
    from r s r1 s1 ab x y
    have n: "c \<in># N - {#a#}" "e \<in># N - {#a#}" "k c \<le> k e" "k e \<le> k c"
      by (simp_all add: top2_def)
    from n(1,2) have "c \<in># N" and "e \<in># N"
      by (auto dest: in_diffD)
    from d[OF this] n(3,4) have "c = e"
      by simp
    with r s ab r1 s1 show ?thesis by simp
  qed
qed

lemma top2_image:
  fixes k :: "'a \<Rightarrow> 'k::linorder" and k' :: "'b \<Rightarrow> 'j::linorder"
  assumes t: "top2 k M r0 r1"
    and m: "\<And>x y. k x \<le> k y \<Longrightarrow> k' (f x) \<le> k' (f y)"
  shows "top2 k' (image_mset f M) (map_option f r0) (map_option f r1)"
proof (cases r0)
  case None
  with t show ?thesis by (simp add: top2_def)
next
  case r: (Some a)
  with t have a: "a \<in># M" by (simp add: top2_def)
  then have D: "image_mset f (M - {#a#}) = image_mset f M - {#f a#}"
    by (simp add: image_mset_Diff)
  show ?thesis
  proof (cases r1)
    case None
    with r t D m show ?thesis
      by (auto simp: top2_def)
  next
    case (Some b)
    with r t m have "f b \<in># image_mset f (M - {#a#})"
      and "\<forall>c\<in>#image_mset f (M - {#a#}). k' (f b) \<le> k' c"
      by (auto simp: top2_def)
    with Some r t m show ?thesis
      unfolding D by (auto simp: top2_def)
  qed
qed

section \<open>Two runs over the same volumes\<close>

lemma pref_key_mono:
  "pref_key p x \<le> pref_key p y \<Longrightarrow> cand_key (cand_of p x) \<le> cand_key (cand_of p y)"
  by (auto simp: pref_key_def cand_key_def cand_of_def less_eq_prod_def less_prod_def)

lemma loaded_vol_cand: "map_option (cand_of p) (loaded p vix) = vol_cand p (volumes p ! vix)"
  by (simp add: loaded_def vol_cand_def cand_of_def on_boot_volume_def Let_def)

lemma mset_map_filter:
  "mset (List.map_filter f xs) =
     image_mset (\<lambda>x. the (f x)) (filter_mset (\<lambda>x. f x \<noteq> None) (mset xs))"
  by (simp add: List.map_filter_def comp_def)

lemma candidates_image:
  "image_mset (cand_of p) (mset (candidates p cfg)) =
     mset (List.map_filter (vol_cand p) (map (\<lambda>vix. volumes p ! vix) cfg))"
proof (induction cfg)
  case Nil
  show ?case by (simp add: candidates_def)
next
  case (Cons vix cfg)
  show ?case
  proof (cases "loaded p vix")
    case None
    with loaded_vol_cand[of p vix, symmetric] Cons show ?thesis
      by (simp add: candidates_Cons map_filter_simps)
  next
    case (Some c)
    with loaded_vol_cand[of p vix, symmetric] Cons show ?thesis
      by (simp add: candidates_Cons map_filter_simps)
  qed
qed

lemma select_params:
  assumes "ptr_ok st"
  shows "params (select_config p bglp st) =
           chosen_params p bglp (map_option envdata (ranked st 0))
             (map_option envdata (ranked st 1))"
proof (cases "ranked st 0")
  case None
  then show ?thesis
    using select_no_leader[of st p bglp] by (simp add: chosen_params_def)
next
  case (Some leader)
  show ?thesis
  proof (cases "in_progress (envdata leader)")
    case True
    with Some show ?thesis
      using select_no_leader[of st p bglp] by (simp add: chosen_params_def)
  next
    case np: False
    show ?thesis
    proof (cases "ustate (envdata leader) = USTATE_TESTING")
      case True
      note sel = select_testing[where p = p and bglp = bglp, OF assms Some np True]
      show ?thesis
      proof (cases "ranked st 1")
        case None
        with sel(3) Some np True show ?thesis by (simp add: chosen_params_def)
      next
        case r: (Some runner_up)
        with sel(4)[OF r] Some np True show ?thesis
          by (simp add: chosen_params_def handed_def)
      qed
    next
      case nt: False
      show ?thesis
      proof (cases "ustate (envdata leader) = USTATE_INSTALLED")
        case True
        with select_installed(4)[where p = p and bglp = bglp, OF Some np True] Some np
        show ?thesis by (simp add: chosen_params_def handed_def)
      next
        case False
        with select_other[OF Some np nt False, of p bglp] Some np nt show ?thesis
          by (simp add: chosen_params_def handed_def)
      qed
    qed
  qed
qed

lemma tie_keys_injective:
  assumes t: "\<forall>c\<in>set cs. \<forall>c'\<in>set cs. tie_key p c = tie_key p c' \<longrightarrow> envdata c = envdata c'"
    and x: "x \<in># image_mset (cand_of p) (mset cs)"
    and y: "y \<in># image_mset (cand_of p) (mset cs)"
    and k: "cand_key x = cand_key y"
  shows "x = y"
proof -
  from x obtain c where c: "c \<in> set cs" "x = cand_of p c"
    by auto
  from y obtain c' where c': "c' \<in> set cs" "y = cand_of p c'"
    by auto
  from k c(2) c'(2) have e: "tie_key p c = tie_key p c'"
    by (simp add: cand_key_def cand_of_def tie_key_def)
  with t c(1) c'(1) have "envdata c = envdata c'"
    by blast
  moreover from e have "on_boot_volume p c = on_boot_volume p c'"
    by (simp add: tie_key_def)
  ultimately show ?thesis
    by (simp add: c(2) c'(2) cand_of_def)
qed

section \<open>The claims\<close>

text \<open>
  C1.  Rank maintenance.  A sift swaps its two cells exactly when the right one is
  strictly preferred to the left one in the order of the specification (present before
  absent, not in progress before in progress, higher revision, lower state rank,
  boot volume, lower volume index), so equal candidates are not swapped; and after any
  number of volumes has been visited, cell 0 of the ranking holds a most preferred of
  the candidates loaded so far and cell 1 a most preferred of the others.
\<close>

theorem C1_rank_maintenance:
  "sift_envdata_volume p e (l, r) =
     (if preferred p (map_option e r) (map_option e l) then (r, l) else (l, r)) \<and>
   top_two p (candidates p cfg)
     (ranked (rank_volumes p cfg (init_state env0 err)) 0)
     (ranked (rank_volumes p cfg (init_state env0 err)) 1)"
  using sift_refines rank_volumes_init by simp

theorem C1_rank_maintenance_witness:
  "candidates rank_platform [0, 1, 2, 3] =
     [\<lparr>volume_index = 0, envdata = test_envdata 1 False USTATE_OK 11\<rparr>,
      \<lparr>volume_index = 2, envdata = test_envdata 3 False USTATE_OK 33\<rparr>,
      \<lparr>volume_index = 3, envdata = test_envdata 2 False USTATE_OK 22\<rparr>] \<and>
   top_two rank_platform (candidates rank_platform [0, 1, 2, 3])
     (Some \<lparr>volume_index = 2, envdata = test_envdata 3 False USTATE_OK 33\<rparr>)
     (Some \<lparr>volume_index = 3, envdata = test_envdata 2 False USTATE_OK 22\<rparr>)"
proof -
  have c: "candidates rank_platform [0, 1, 2, 3] =
     [\<lparr>volume_index = 0, envdata = test_envdata 1 False USTATE_OK 11\<rparr>,
      \<lparr>volume_index = 2, envdata = test_envdata 3 False USTATE_OK 33\<rparr>,
      \<lparr>volume_index = 3, envdata = test_envdata 2 False USTATE_OK 22\<rparr>]"
    by code_simp
  have r0: "ranked (rank_volumes rank_platform [0, 1, 2, 3] (init_state test_env0 False)) 0 =
      Some \<lparr>volume_index = 2, envdata = test_envdata 3 False USTATE_OK 33\<rparr>"
    by code_simp
  have r1: "ranked (rank_volumes rank_platform [0, 1, 2, 3] (init_state test_env0 False)) 1 =
      Some \<lparr>volume_index = 3, envdata = test_envdata 2 False USTATE_OK 22\<rparr>"
    by code_simp
  from C1_rank_maintenance[of rank_platform test_env0 None None "[0, 1, 2, 3]" test_env0 False]
  show ?thesis by (simp only: c r0 r1 simp_thms)
qed

text \<open>
  C2.  TESTING demotion.  When the ranked leader exists, is not in progress and is in
  state TESTING, load_config sets it to FAILED with revision REVISION_FAILED in memory
  and runs the write-back on it: the calls of the run are those of the ranking followed
  by those of save_current_config on the demoted leader, which, once the file is open
  and the checksum computed, stores the new checksum in the record and writes the whole
  record to the leader's volume.  Then the result is CONFIG_ERROR with the parameters
  untouched when there is no runner-up, and otherwise the runner-up is handed to the
  loader.
\<close>

theorem C2_testing_demotion:
  assumes "enumerated p"
    and "ranked (ranking p env0) 0 = Some leader"
    and "\<not> in_progress (envdata leader)"
    and "ustate (envdata leader) = USTATE_TESTING"
  shows
    "let demoted = leader\<lparr>envdata := (envdata leader)
                     \<lparr>ustate := USTATE_FAILED, revision := REVISION_FAILED\<rparr>\<rparr>;
         rt = root (volumes p ! volume_index leader);
         crc = CalculateCrc32 p (crc_region (envdata demoted));
         r = load_config p env0 bglp
     in ranked (final r) 0 = Some (fst (snd (save_current_config p demoted))) \<and>
        ustate (envdata (fst (snd (save_current_config p demoted)))) = USTATE_FAILED \<and>
        revision (envdata (fst (snd (save_current_config p demoted)))) = REVISION_FAILED \<and>
        trace (final r) = trace (ranking p env0) @ snd (snd (save_current_config p demoted)) \<and>
        (\<not> EFI_ERROR (open_cfg_file p rt MODE_WRITE_READ) \<and> \<not> EFI_ERROR (fst crc) \<longrightarrow>
           crc32 (envdata (fst (snd (save_current_config p demoted)))) = snd crc \<and>
           snd (snd (save_current_config p demoted)) =
             [IO_open rt MODE_WRITE_READ,
              IO_write rt (sizeof_BG_ENVDATA p) ((envdata demoted)\<lparr>crc32 := snd crc\<rparr>),
              IO_close rt]) \<and>
        (case ranked (ranking p env0) 1 of
           None \<Rightarrow> status r = BG_CONFIG_ERROR \<and> params r = bglp
         | Some runner_up \<Rightarrow>
             status r = verdict (ranking p env0) \<and> params r = handed p bglp runner_up)"
proof -
  define demoted where
    "demoted = leader\<lparr>envdata := (envdata leader)
       \<lparr>ustate := USTATE_FAILED, revision := REVISION_FAILED\<rparr>\<rparr>"
  note sel = select_testing[where p = p and bglp = bglp, OF ptr_ok_ranking assms(2,3,4),
      folded demoted_def]
  have vi: "volume_index demoted = volume_index leader"
    by (simp add: demoted_def)
  have f: "ustate (envdata demoted) = USTATE_FAILED"
    "revision (envdata demoted) = REVISION_FAILED"
    by (simp_all add: demoted_def)
  have wr: "crc32 (envdata (fst (snd (save_current_config p demoted)))) =
          snd (CalculateCrc32 p (crc_region (envdata demoted))) \<and>
      snd (snd (save_current_config p demoted)) =
        [IO_open (root (volumes p ! volume_index leader)) MODE_WRITE_READ,
         IO_write (root (volumes p ! volume_index leader)) (sizeof_BG_ENVDATA p)
           ((envdata demoted)
              \<lparr>crc32 := snd (CalculateCrc32 p (crc_region (envdata demoted)))\<rparr>),
         IO_close (root (volumes p ! volume_index leader))]"
    if "\<not> EFI_ERROR (open_cfg_file p (root (volumes p ! volume_index leader))
          MODE_WRITE_READ)"
      and "\<not> EFI_ERROR (fst (CalculateCrc32 p (crc_region (envdata demoted))))"
    using that save_current_config_written[of p demoted] by (simp add: vi)
  show ?thesis
    unfolding Let_def demoted_def[symmetric]
    using sel wr f
    by (simp add: load_config_enumerated[OF assms(1)] save_current_config_fields
          split: option.splits)
qed

theorem C2_testing_demotion_witness:
  "enumerated testing_platform \<and>
   ranked (ranking testing_platform test_env0) 0 =
     Some \<lparr>volume_index = 0, envdata = test_envdata 2 False USTATE_TESTING 11\<rparr> \<and>
   ranked (ranking testing_platform test_env0) 1 =
     Some \<lparr>volume_index = 1, envdata = test_envdata 1 False USTATE_OK 99\<rparr> \<and>
   status (load_config testing_platform test_env0 test_bglp) = BG_SUCCESS \<and>
   params (load_config testing_platform test_env0 test_bglp) =
     \<lparr>payload_path = Some [107, 99, 0], payload_options = Some [112, 1, 0], timeout = 99\<rparr> \<and>
   trace (final (load_config testing_platform test_env0 test_bglp)) =
     trace (ranking testing_platform test_env0) @
     [IO_open 10 MODE_WRITE_READ,
      IO_write 10 1040
        ((test_envdata 2 False USTATE_TESTING 11)
           \<lparr>ustate := USTATE_FAILED, revision := REVISION_FAILED, crc32 := 91\<rparr>),
      IO_close 10]"
proof -
  have h1: "enumerated testing_platform"
    by code_simp
  have h2: "ranked (ranking testing_platform test_env0) 0 =
      Some \<lparr>volume_index = 0, envdata = test_envdata 2 False USTATE_TESTING 11\<rparr>"
    by code_simp
  have h3: "\<not> in_progress
      (envdata \<lparr>volume_index = 0, envdata = test_envdata 2 False USTATE_TESTING 11\<rparr>)"
    by code_simp
  have h4: "ustate
      (envdata \<lparr>volume_index = 0, envdata = test_envdata 2 False USTATE_TESTING 11\<rparr>) =
      USTATE_TESTING"
    by code_simp
  have r1: "ranked (ranking testing_platform test_env0) 1 =
      Some \<lparr>volume_index = 1, envdata = test_envdata 1 False USTATE_OK 99\<rparr>"
    by code_simp
  have v: "verdict (ranking testing_platform test_env0) = BG_SUCCESS"
    by code_simp
  have hd: "handed testing_platform test_bglp
       \<lparr>volume_index = 1, envdata = test_envdata 1 False USTATE_OK 99\<rparr> =
     \<lparr>payload_path = Some [107, 99, 0], payload_options = Some [112, 1, 0], timeout = 99\<rparr>"
    by code_simp
  have sv: "snd (snd (save_current_config testing_platform
       (\<lparr>volume_index = 0, envdata = test_envdata 2 False USTATE_TESTING 11\<rparr>
          \<lparr>envdata := (envdata \<lparr>volume_index = 0,
               envdata = test_envdata 2 False USTATE_TESTING 11\<rparr>)
             \<lparr>ustate := USTATE_FAILED, revision := REVISION_FAILED\<rparr>\<rparr>))) =
     [IO_open 10 MODE_WRITE_READ,
      IO_write 10 1040
        ((test_envdata 2 False USTATE_TESTING 11)
           \<lparr>ustate := USTATE_FAILED, revision := REVISION_FAILED, crc32 := 91\<rparr>),
      IO_close 10]"
    by code_simp
  from C2_testing_demotion[OF h1 h2 h3 h4, of test_bglp] h1 h2 r1 v hd sv
  show ?thesis
    by (simp add: Let_def)
qed

text \<open>
  C3.  INSTALLED promotion.  When the ranked leader exists, is not in progress and is in
  state INSTALLED, load_config sets it to TESTING in memory, the revision unchanged, runs
  the write-back on it (once the file is open and the checksum computed, the new
  checksum is stored in the record and the whole record goes to the leader's volume),
  and hands the leader's kernelfile, kernelparams and watchdog timeout to the loader.
\<close>

theorem C3_installed_promotion:
  assumes "enumerated p"
    and "ranked (ranking p env0) 0 = Some leader"
    and "\<not> in_progress (envdata leader)"
    and "ustate (envdata leader) = USTATE_INSTALLED"
  shows
    "let promoted = leader\<lparr>envdata := (envdata leader)\<lparr>ustate := USTATE_TESTING\<rparr>\<rparr>;
         rt = root (volumes p ! volume_index leader);
         crc = CalculateCrc32 p (crc_region (envdata promoted));
         r = load_config p env0 bglp
     in ranked (final r) 0 = Some (fst (snd (save_current_config p promoted))) \<and>
        ustate (envdata (fst (snd (save_current_config p promoted)))) = USTATE_TESTING \<and>
        revision (envdata (fst (snd (save_current_config p promoted)))) =
          revision (envdata leader) \<and>
        trace (final r) =
          trace (ranking p env0) @ snd (snd (save_current_config p promoted)) \<and>
        (\<not> EFI_ERROR (open_cfg_file p rt MODE_WRITE_READ) \<and> \<not> EFI_ERROR (fst crc) \<longrightarrow>
           crc32 (envdata (fst (snd (save_current_config p promoted)))) = snd crc \<and>
           snd (snd (save_current_config p promoted)) =
             [IO_open rt MODE_WRITE_READ,
              IO_write rt (sizeof_BG_ENVDATA p) ((envdata promoted)\<lparr>crc32 := snd crc\<rparr>),
              IO_close rt]) \<and>
        status r = verdict (ranking p env0) \<and>
        params r = handed p bglp leader"
proof -
  define promoted where
    "promoted = leader\<lparr>envdata := (envdata leader)\<lparr>ustate := USTATE_TESTING\<rparr>\<rparr>"
  note sel = select_installed[where p = p and bglp = bglp, OF assms(2,3,4),
      folded promoted_def]
  have vi: "volume_index promoted = volume_index leader"
    by (simp add: promoted_def)
  have wr: "crc32 (envdata (fst (snd (save_current_config p promoted)))) =
          snd (CalculateCrc32 p (crc_region (envdata promoted))) \<and>
      snd (snd (save_current_config p promoted)) =
        [IO_open (root (volumes p ! volume_index leader)) MODE_WRITE_READ,
         IO_write (root (volumes p ! volume_index leader)) (sizeof_BG_ENVDATA p)
           ((envdata promoted)
              \<lparr>crc32 := snd (CalculateCrc32 p (crc_region (envdata promoted)))\<rparr>),
         IO_close (root (volumes p ! volume_index leader))]"
    if "\<not> EFI_ERROR (open_cfg_file p (root (volumes p ! volume_index leader))
          MODE_WRITE_READ)"
      and "\<not> EFI_ERROR (fst (CalculateCrc32 p (crc_region (envdata promoted))))"
    using that save_current_config_written[of p promoted] by (simp add: vi)
  have f: "ustate (envdata promoted) = USTATE_TESTING"
    "revision (envdata promoted) = revision (envdata leader)"
    by (simp_all add: promoted_def)
  show ?thesis
    unfolding Let_def promoted_def[symmetric]
    using sel wr f
    by (simp add: load_config_enumerated[OF assms(1)] save_current_config_fields)
qed

theorem C3_installed_promotion_witness:
  "enumerated installed_platform \<and>
   ranked (ranking installed_platform test_env0) 0 =
     Some \<lparr>volume_index = 0, envdata = test_envdata 2 False USTATE_INSTALLED 11\<rparr> \<and>
   status (load_config installed_platform test_env0 test_bglp) = BG_SUCCESS \<and>
   params (load_config installed_platform test_env0 test_bglp) =
     \<lparr>payload_path = Some [107, 11, 0], payload_options = Some [112, 2, 0], timeout = 11\<rparr> \<and>
   trace (final (load_config installed_platform test_env0 test_bglp)) =
     trace (ranking installed_platform test_env0) @
     [IO_open 10 MODE_WRITE_READ,
      IO_write 10 1040
        ((test_envdata 2 False USTATE_INSTALLED 11)\<lparr>ustate := USTATE_TESTING, crc32 := 147\<rparr>),
      IO_close 10]"
proof -
  have h1: "enumerated installed_platform"
    by code_simp
  have h2: "ranked (ranking installed_platform test_env0) 0 =
      Some \<lparr>volume_index = 0, envdata = test_envdata 2 False USTATE_INSTALLED 11\<rparr>"
    by code_simp
  have h3: "\<not> in_progress
      (envdata \<lparr>volume_index = 0, envdata = test_envdata 2 False USTATE_INSTALLED 11\<rparr>)"
    by code_simp
  have h4: "ustate
      (envdata \<lparr>volume_index = 0, envdata = test_envdata 2 False USTATE_INSTALLED 11\<rparr>) =
      USTATE_INSTALLED"
    by code_simp
  have v: "verdict (ranking installed_platform test_env0) = BG_SUCCESS"
    by code_simp
  have hd: "handed installed_platform test_bglp
       \<lparr>volume_index = 0, envdata = test_envdata 2 False USTATE_INSTALLED 11\<rparr> =
     \<lparr>payload_path = Some [107, 11, 0], payload_options = Some [112, 2, 0], timeout = 11\<rparr>"
    by code_simp
  have sv: "snd (snd (save_current_config installed_platform
       (\<lparr>volume_index = 0, envdata = test_envdata 2 False USTATE_INSTALLED 11\<rparr>
          \<lparr>envdata := (envdata \<lparr>volume_index = 0,
               envdata = test_envdata 2 False USTATE_INSTALLED 11\<rparr>)
             \<lparr>ustate := USTATE_TESTING\<rparr>\<rparr>))) =
     [IO_open 10 MODE_WRITE_READ,
      IO_write 10 1040
        ((test_envdata 2 False USTATE_INSTALLED 11)\<lparr>ustate := USTATE_TESTING, crc32 := 147\<rparr>),
      IO_close 10]"
    by code_simp
  from C3_installed_promotion[OF h1 h2 h3 h4, of test_bglp] h1 h2 v hd sv
  show ?thesis
    by (simp add: Let_def)
qed

text \<open>
  C4 fails on the code.  In the first run the leader is INSTALLED, in the second it is
  TESTING and has a runner-up; in both the config file cannot be opened for writing, so
  the write-back of the changed leader fails, and nothing else goes wrong.  load_config
  drops the result of save_current_config: the chosen record is handed to the loader,
  the flag errored stays clear and the verdict is SUCCESS, not PARTIALLY_CORRUPTED.
\<close>

theorem C4_failed_write_back_returns_success:
  "ranked (ranking write_denied_platform test_env0) 0 =
     Some \<lparr>volume_index = 0, envdata = test_envdata 2 False USTATE_INSTALLED 11\<rparr> \<and>
   fst (save_current_config write_denied_platform
     \<lparr>volume_index = 0,
        envdata = (test_envdata 2 False USTATE_INSTALLED 11)\<lparr>ustate := USTATE_TESTING\<rparr>\<rparr>) =
     BG_CONFIG_ERROR \<and>
   timeout (params (load_config write_denied_platform test_env0 test_bglp)) = 11 \<and>
   errored (final (load_config write_denied_platform test_env0 test_bglp)) = False \<and>
   status (load_config write_denied_platform test_env0 test_bglp) = BG_SUCCESS \<and>
   ranked (ranking demotion_denied_platform test_env0) 0 =
     Some \<lparr>volume_index = 0, envdata = test_envdata 2 False USTATE_TESTING 11\<rparr> \<and>
   ranked (ranking demotion_denied_platform test_env0) 1 =
     Some \<lparr>volume_index = 1, envdata = test_envdata 1 False USTATE_OK 99\<rparr> \<and>
   fst (save_current_config demotion_denied_platform
     \<lparr>volume_index = 0,
        envdata = (test_envdata 2 False USTATE_TESTING 11)
          \<lparr>ustate := USTATE_FAILED, revision := REVISION_FAILED\<rparr>\<rparr>) =
     BG_CONFIG_ERROR \<and>
   timeout (params (load_config demotion_denied_platform test_env0 test_bglp)) = 99 \<and>
   errored (final (load_config demotion_denied_platform test_env0 test_bglp)) = False \<and>
   status (load_config demotion_denied_platform test_env0 test_bglp) = BG_SUCCESS"
  by code_simp

text \<open>
  C5, as the code has it.  The write-back opens the file with read and write access.
  When the open fails nothing more is called.  Otherwise the checksum is computed; when
  that fails the file is closed and no write is asked for; when it succeeds a write of
  the whole record, with the new checksum, is asked for and the file is closed.  The
  write-back fails exactly when the open, the checksum, the write or the close returns
  an error status.  The length the write reports is not looked at: the write-back does
  the same whatever length is reported.
\<close>

theorem C5_write_back_by_status:
  "let rt = root (volumes p ! volume_index e);
       crc = CalculateCrc32 p (crc_region (envdata e));
       sealed = (envdata e)\<lparr>crc32 := snd crc\<rparr>;
       wr = write_cfg_file p rt (sizeof_BG_ENVDATA p) sealed
   in snd (snd (save_current_config p e)) =
        (if EFI_ERROR (open_cfg_file p rt MODE_WRITE_READ) then [IO_open rt MODE_WRITE_READ]
         else if EFI_ERROR (fst crc) then [IO_open rt MODE_WRITE_READ, IO_close rt]
         else [IO_open rt MODE_WRITE_READ, IO_write rt (sizeof_BG_ENVDATA p) sealed,
               IO_close rt]) \<and>
      fst (save_current_config p e) =
        (if EFI_ERROR (open_cfg_file p rt MODE_WRITE_READ) then BG_CONFIG_ERROR
         else if EFI_ERROR (fst crc) then BG_CONFIG_ERROR
         else if EFI_ERROR (fst wr) then BG_CONFIG_ERROR
         else if EFI_ERROR (close_cfg_file p rt MODE_WRITE_READ) then BG_CONFIG_ERROR
         else BG_SUCCESS) \<and>
      save_current_config
        (p\<lparr>write_cfg_file := (\<lambda>r n d. (fst (write_cfg_file p r n d), len r n d))\<rparr>) e =
        save_current_config p e"
  by (simp add: save_current_config_def Let_def)

text \<open>
  C5 as stated fails twice.  A write that returns success and reports zero bytes
  written is taken for a success by save_current_config.  And when the file cannot be
  opened for writing the write-back fails with the open as its only call: no record is
  written.
\<close>

theorem C5_short_write_counterexample:
  "snd (write_cfg_file short_write_platform 10 (sizeof_BG_ENVDATA short_write_platform)
         ((test_envdata 2 False USTATE_TESTING 11)\<lparr>crc32 := 147\<rparr>)) <
     sizeof_BG_ENVDATA short_write_platform \<and>
   save_current_config short_write_platform
     \<lparr>volume_index = 0, envdata = test_envdata 2 False USTATE_TESTING 11\<rparr> =
     (BG_SUCCESS,
      \<lparr>volume_index = 0, envdata = (test_envdata 2 False USTATE_TESTING 11)\<lparr>crc32 := 147\<rparr>\<rparr>,
      [IO_open 10 MODE_WRITE_READ,
       IO_write 10 1040 ((test_envdata 2 False USTATE_TESTING 11)\<lparr>crc32 := 147\<rparr>),
       IO_close 10]) \<and>
   fst (save_current_config write_denied_platform
     \<lparr>volume_index = 0, envdata = test_envdata 2 False USTATE_TESTING 11\<rparr>) =
     BG_CONFIG_ERROR \<and>
   snd (snd (save_current_config write_denied_platform
     \<lparr>volume_index = 0, envdata = test_envdata 2 False USTATE_TESTING 11\<rparr>)) =
     [IO_open 10 MODE_WRITE_READ]"
  by code_simp

text \<open>
  C6 fails on the code.  The first volume holds a record in state TESTING that is not
  in progress, the second a record of a higher revision that is in progress.  The
  first is the leader and is demoted; the runner-up is taken without a look at its
  in_progress field, so load_config returns SUCCESS with the parameters of the record
  in progress.
\<close>

theorem C6_in_progress_runner_up_booted:
  "candidates fallback_platform (visited_volumes fallback_platform) =
     [\<lparr>volume_index = 0, envdata = test_envdata 1 False USTATE_TESTING 11\<rparr>,
      \<lparr>volume_index = 1, envdata = test_envdata 5 True USTATE_OK 99\<rparr>] \<and>
   in_progress (test_envdata 1 False USTATE_TESTING 11) = False \<and>
   in_progress (test_envdata 5 True USTATE_OK 99) = True \<and>
   status (load_config fallback_platform test_env0 test_bglp) = BG_SUCCESS \<and>
   params (load_config fallback_platform test_env0 test_bglp) =
     test_bglp
       \<lparr>payload_path := StrDuplicate fallback_platform
          (kernelfile (test_envdata 5 True USTATE_OK 99)),
        payload_options := StrDuplicate fallback_platform
          (kernelparams (test_envdata 5 True USTATE_OK 99)),
        timeout := watchdog_timeout_sec (test_envdata 5 True USTATE_OK 99)\<rparr> \<and>
   timeout (params (load_config fallback_platform test_env0 test_bglp)) = 99"
  by code_simp

text \<open>
  C7.  When there is no leader after the ranking, or the leader is in progress,
  load_config returns CONFIG_ERROR, leaves the caller's parameters as they were, and
  neither opens a file for writing nor writes to one.
\<close>

theorem C7_config_error_atomicity:
  assumes "enumerated p"
    and "case ranked (ranking p env0) 0 of
           None \<Rightarrow> True | Some leader \<Rightarrow> in_progress (envdata leader)"
  shows "status (load_config p env0 bglp) = BG_CONFIG_ERROR \<and>
         params (load_config p env0 bglp) = bglp \<and>
         filter is_write_access (trace (final (load_config p env0 bglp))) = []"
  using select_no_leader[OF assms(2)] load_config_enumerated[OF assms(1)] ranking_no_write
  by simp

theorem C7_config_error_atomicity_witness:
  "enumerated in_progress_platform \<and>
   ranked (ranking in_progress_platform test_env0) 0 =
     Some \<lparr>volume_index = 0, envdata = test_envdata 1 True USTATE_OK 11\<rparr> \<and>
   status (load_config in_progress_platform test_env0 test_bglp) = BG_CONFIG_ERROR \<and>
   params (load_config in_progress_platform test_env0 test_bglp) = test_bglp \<and>
   filter is_write_access (trace (final (load_config in_progress_platform test_env0 test_bglp))) = []"
proof -
  have h1: "enumerated in_progress_platform"
    by code_simp
  have r0: "ranked (ranking in_progress_platform test_env0) 0 =
      Some \<lparr>volume_index = 0, envdata = test_envdata 1 True USTATE_OK 11\<rparr>"
    by code_simp
  have h2: "case ranked (ranking in_progress_platform test_env0) 0 of
      None \<Rightarrow> True | Some leader \<Rightarrow> in_progress (envdata leader)"
    by code_simp
  from C7_config_error_atomicity[OF h1 h2, of test_bglp] h1 r0 show ?thesis
    by simp
qed

text \<open>
  C8.  Loader error semantics.  When the open fails, or the read fails, or the length
  read is not the record's, or the checksum cannot be computed, or it differs from the
  stored one, read_config sets the flag and returns an error, load_config sets errored,
  and the two leading cells of the ranking and the candidates are as before the
  volume.  When all of that succeeds and only the close fails, read_config sets the
  flag and returns no error, load_config sets errored, and the record (its strings
  terminated) is a candidate that the ranking accounts for.
\<close>

theorem C8_loader_error_semantics:
  "let v = volumes p ! vix;
       rd = read_cfg_file p (root v) (sizeof_BG_ENVDATA p);
       buf = snd (snd rd);
       crc = CalculateCrc32 p (crc_region buf);
       res = read_config p False v d0;
       st = rank_volumes p cfg (init_state env0 e);
       st' = rank_volumes p (cfg @ [vix]) (init_state env0 e)
   in (EFI_ERROR (open_cfg_file p (root v) MODE_READ) \<or> EFI_ERROR (fst rd) \<or>
       fst (snd rd) \<noteq> sizeof_BG_ENVDATA p \<or> EFI_ERROR (fst crc) \<or> snd crc \<noteq> crc32 buf \<longrightarrow>
         fst res \<and> EFI_ERROR (fst (snd res)) \<and> errored st' \<and>
         ranked st' 0 = ranked st 0 \<and> ranked st' 1 = ranked st 1 \<and>
         candidates p (cfg @ [vix]) = candidates p cfg) \<and>
      (\<not> EFI_ERROR (open_cfg_file p (root v) MODE_READ) \<and> \<not> EFI_ERROR (fst rd) \<and>
       fst (snd rd) = sizeof_BG_ENVDATA p \<and> \<not> EFI_ERROR (fst crc) \<and> snd crc = crc32 buf \<and>
       EFI_ERROR (close_cfg_file p (root v) MODE_READ) \<longrightarrow>
         fst res \<and> \<not> EFI_ERROR (fst (snd res)) \<and> fst (snd (snd res)) = buf \<and> errored st' \<and>
         candidates p (cfg @ [vix]) =
           candidates p cfg @ [\<lparr>volume_index = vix, envdata = terminate_strings p buf\<rparr>] \<and>
         top_two p (candidates p (cfg @ [vix])) (ranked st' 0) (ranked st' 1))"
proof -
  define v where "v = volumes p ! vix"
  define rd where "rd = read_cfg_file p (root v) (sizeof_BG_ENVDATA p)"
  define crc where "crc = CalculateCrc32 p (crc_region (snd (snd rd)))"
  define st where "st = rank_volumes p cfg (init_state env0 e)"
  have ok: "ptr_ok st"
    using rank_volumes_init by (simp add: st_def)
  have bad: "fst (read_config p False v d0) \<and> EFI_ERROR (fst (snd (read_config p False v d0))) \<and>
      errored (load_step p vix st) \<and> ranked (load_step p vix st) 0 = ranked st 0 \<and>
      ranked (load_step p vix st) 1 = ranked st 1 \<and>
      candidates p (cfg @ [vix]) = candidates p cfg"
    if "EFI_ERROR (open_cfg_file p (root v) MODE_READ) \<or> EFI_ERROR (fst rd) \<or>
       fst (snd rd) \<noteq> sizeof_BG_ENVDATA p \<or> EFI_ERROR (fst crc) \<or>
       snd crc \<noteq> crc32 (snd (snd rd))"
  proof -
    from that have n: "loaded p vix = None"
      by (auto simp: loaded_def Let_def v_def rd_def crc_def)
    with load_step_inv(2)[OF ok n] show ?thesis
      by (simp add: v_def read_config_flag read_config_status load_step_errored
            candidates_snoc)
  qed
  have good: "fst (read_config p False v d0) \<and>
      \<not> EFI_ERROR (fst (snd (read_config p False v d0))) \<and>
      fst (snd (snd (read_config p False v d0))) = snd (snd rd) \<and>
      errored (load_step p vix st) \<and>
      candidates p (cfg @ [vix]) =
        candidates p cfg @ [\<lparr>volume_index = vix, envdata = terminate_strings p (snd (snd rd))\<rparr>] \<and>
      top_two p (candidates p (cfg @ [vix]))
        (ranked (load_step p vix st) 0) (ranked (load_step p vix st) 1)"
    if "\<not> EFI_ERROR (open_cfg_file p (root v) MODE_READ) \<and> \<not> EFI_ERROR (fst rd) \<and>
       fst (snd rd) = sizeof_BG_ENVDATA p \<and> \<not> EFI_ERROR (fst crc) \<and>
       snd crc = crc32 (snd (snd rd)) \<and> EFI_ERROR (close_cfg_file p (root v) MODE_READ)"
  proof -
    from that have l: "loaded p vix =
        Some \<lparr>volume_index = vix, envdata = terminate_strings p (snd (snd rd))\<rparr>"
      by (simp add: loaded_def Let_def v_def rd_def crc_def)
    have b: "fst (snd (snd (read_config p False v d0))) = snd (snd rd)"
      using that by (simp add: read_config_def Let_def rd_def)
    have tt: "top_two p (candidates p (cfg @ [vix]))
        (ranked (rank_volumes p (cfg @ [vix]) (init_state env0 e)) 0)
        (ranked (rank_volumes p (cfg @ [vix]) (init_state env0 e)) 1)"
      using rank_volumes_init by simp
    from that l b tt show ?thesis
      by (simp add: v_def read_config_flag read_config_status load_step_errored
            candidates_snoc rank_volumes_snoc st_def)
  qed
  from bad good show ?thesis
    unfolding Let_def rank_volumes_snoc
    by (simp only: v_def[symmetric] rd_def[symmetric] crc_def[symmetric] st_def[symmetric])
      blast
qed

theorem C8_loader_error_semantics_witness:
  "fst (snd (read_cfg_file close_failing_platform 11 1040)) \<noteq> 1040 \<and>
   EFI_ERROR (fst (snd (read_config close_failing_platform False
     (volumes close_failing_platform ! 1) (test_envdata 0 False USTATE_OK 0)))) \<and>
   errored (rank_volumes close_failing_platform [0, 1] (init_state test_env0 False)) \<and>
   candidates close_failing_platform [0, 1] = candidates close_failing_platform [0] \<and>
   EFI_ERROR (close_cfg_file close_failing_platform 12 MODE_READ) \<and>
   \<not> EFI_ERROR (fst (snd (read_config close_failing_platform False
     (volumes close_failing_platform ! 2) (test_envdata 0 False USTATE_OK 0)))) \<and>
   errored (rank_volumes close_failing_platform [0, 2] (init_state test_env0 False)) \<and>
   ranked (rank_volumes close_failing_platform [0, 2] (init_state test_env0 False)) 0 =
     Some \<lparr>volume_index = 2, envdata = test_envdata 3 False USTATE_OK 33\<rparr> \<and>
   top_two close_failing_platform (candidates close_failing_platform [0, 2])
     (ranked (rank_volumes close_failing_platform [0, 2] (init_state test_env0 False)) 0)
     (ranked (rank_volumes close_failing_platform [0, 2] (init_state test_env0 False)) 1)"
proof -
  have v1: "root (volumes close_failing_platform ! 1) = 11"
    and v2: "root (volumes close_failing_platform ! 2) = 12"
    and sz: "sizeof_BG_ENVDATA close_failing_platform = 1040"
    by code_simp+
  have short: "fst (snd (read_cfg_file close_failing_platform 11 1040)) \<noteq> 1040"
    by code_simp
  have o2: "\<not> EFI_ERROR (open_cfg_file close_failing_platform 12 MODE_READ)"
    and rd2: "\<not> EFI_ERROR (fst (read_cfg_file close_failing_platform 12 1040))"
    and len2: "fst (snd (read_cfg_file close_failing_platform 12 1040)) = 1040"
    and crc2: "\<not> EFI_ERROR (fst (CalculateCrc32 close_failing_platform
        (crc_region (snd (snd (read_cfg_file close_failing_platform 12 1040))))))"
    and eq2: "snd (CalculateCrc32 close_failing_platform
        (crc_region (snd (snd (read_cfg_file close_failing_platform 12 1040))))) =
        crc32 (snd (snd (read_cfg_file close_failing_platform 12 1040)))"
    and cl2: "EFI_ERROR (close_cfg_file close_failing_platform 12 MODE_READ)"
    by code_simp+
  have r0: "ranked (rank_volumes close_failing_platform [0, 2] (init_state test_env0 False)) 0 =
     Some \<lparr>volume_index = 2, envdata = test_envdata 3 False USTATE_OK 33\<rparr>"
    by code_simp
  note t1 = C8_loader_error_semantics[of close_failing_platform 1
      "test_envdata 0 False USTATE_OK 0" "[0]" test_env0 False, unfolded Let_def v1 sz]
  note t2 = C8_loader_error_semantics[of close_failing_platform 2
      "test_envdata 0 False USTATE_OK 0" "[0]" test_env0 False, unfolded Let_def v2 sz]
  have hyp1: "EFI_ERROR (open_cfg_file close_failing_platform 11 MODE_READ) \<or>
      EFI_ERROR (fst (read_cfg_file close_failing_platform 11 1040)) \<or>
      fst (snd (read_cfg_file close_failing_platform 11 1040)) \<noteq> 1040 \<or>
      EFI_ERROR (fst (CalculateCrc32 close_failing_platform
        (crc_region (snd (snd (read_cfg_file close_failing_platform 11 1040)))))) \<or>
      snd (CalculateCrc32 close_failing_platform
        (crc_region (snd (snd (read_cfg_file close_failing_platform 11 1040))))) \<noteq>
      crc32 (snd (snd (read_cfg_file close_failing_platform 11 1040)))"
    using short by blast
  have hyp2: "\<not> EFI_ERROR (open_cfg_file close_failing_platform 12 MODE_READ) \<and>
      \<not> EFI_ERROR (fst (read_cfg_file close_failing_platform 12 1040)) \<and>
      fst (snd (read_cfg_file close_failing_platform 12 1040)) = 1040 \<and>
      \<not> EFI_ERROR (fst (CalculateCrc32 close_failing_platform
        (crc_region (snd (snd (read_cfg_file close_failing_platform 12 1040)))))) \<and>
      snd (CalculateCrc32 close_failing_platform
        (crc_region (snd (snd (read_cfg_file close_failing_platform 12 1040))))) =
      crc32 (snd (snd (read_cfg_file close_failing_platform 12 1040))) \<and>
      EFI_ERROR (close_cfg_file close_failing_platform 12 MODE_READ)"
    using o2 rd2 len2 crc2 eq2 cl2 by blast
  note a = t1[THEN conjunct1, THEN mp, OF hyp1]
  note b = t2[THEN conjunct2, THEN mp, OF hyp2]
  have l1: "[0] @ [1] = [0, 1::nat]" and l2: "[0] @ [2] = [0, 2::nat]"
    by simp_all
  from a[unfolded l1] b[unfolded l2] short cl2 r0 show ?thesis
    by blast
qed

text \<open>
  C9, as the code has it.  Take two runs whose volume arrays are permutations of each
  other, with the same services, the same outcome of the enumeration and the same volumes
  visited after the filter.  When any two loaded candidates that agree on in_progress,
  revision, state rank and boot volume hold the same record, so that the volume index
  only ever decides between equal records, both runs hand the same parameters to the
  loader.
\<close>

theorem C9_permutation_determinism:
  assumes q: "q = p\<lparr>volumes := vs, enumerate_cfg_parts := en, filter_cfg_parts := fl\<rparr>"
    and perm: "mset vs = mset (volumes p)"
    and en: "EFI_ERROR (fst en) = EFI_ERROR (fst (enumerate_cfg_parts p))"
    and same: "mset (map (\<lambda>vix. vs ! vix) (visited_volumes q)) =
               mset (map (\<lambda>vix. volumes p ! vix) (visited_volumes p))"
    and ties: "\<forall>c\<in>set (candidates p (visited_volumes p)).
                 \<forall>c'\<in>set (candidates p (visited_volumes p)).
                   tie_key p c = tie_key p c' \<longrightarrow> envdata c = envdata c'"
  shows "params (load_config q env1 bglp) = params (load_config p env0 bglp)"
proof -
  have sel: "volumes q = vs" "enumerate_cfg_parts q = en"
    "AllocatePool q = AllocatePool p" "IsOnBootVolume q = IsOnBootVolume p"
    "open_cfg_file q = open_cfg_file p" "read_cfg_file q = read_cfg_file p"
    "close_cfg_file q = close_cfg_file p" "CalculateCrc32 q = CalculateCrc32 p"
    "StrDuplicate q = StrDuplicate p" "sizeof_BG_ENVDATA q = sizeof_BG_ENVDATA p"
    "sizeof_UINTN q = sizeof_UINTN p" "ENV_STRING_LENGTH q = ENV_STRING_LENGTH p"
    by (simp_all add: q)
  from perm have "length vs = length (volumes p)"
    by (rule mset_eq_length)
  then have enq: "enumerated q = enumerated p"
    using en by (simp add: sel enumerated_def volume_count_def)
  show ?thesis
  proof (cases "enumerated p")
  case False
  with enq show ?thesis
    by (simp add: load_config_not_enumerated)
next
  case True
  with enq have eq: "enumerated q" by simp
  define N where "N = image_mset (cand_of p) (mset (candidates p (visited_volumes p)))"
  have vq: "vol_cand q = vol_cand p"
    by (rule ext) (simp add: sel vol_cand_def terminate_strings_def Let_def)
  have Nq: "image_mset (cand_of q) (mset (candidates q (visited_volumes q))) = N"
    using same by (simp add: N_def candidates_image vq mset_map_filter sel)
  have tp0: "top2 (pref_key p) (mset (candidates p (visited_volumes p)))
      (ranked (ranking p env0) 0) (ranked (ranking p env0) 1)"
    using rank_volumes_init[of p "visited_volumes p" env0]
    by (simp add: ranking_def top_two_mset)
  have tq0: "top2 (pref_key q) (mset (candidates q (visited_volumes q)))
      (ranked (ranking q env1) 0) (ranked (ranking q env1) 1)"
    using rank_volumes_init[of q "visited_volumes q" env1]
    by (simp add: ranking_def top_two_mset)
  have tp: "top2 cand_key N
      (map_option (cand_of p) (ranked (ranking p env0) 0))
      (map_option (cand_of p) (ranked (ranking p env0) 1))"
    unfolding N_def
    by (rule top2_image[where k = "pref_key p" and k' = cand_key and f = "cand_of p",
          OF tp0]) (rule pref_key_mono)
  have tq: "top2 cand_key N
      (map_option (cand_of q) (ranked (ranking q env1) 0))
      (map_option (cand_of q) (ranked (ranking q env1) 1))"
    unfolding Nq[symmetric]
    by (rule top2_image[where k = "pref_key q" and k' = cand_key and f = "cand_of q",
          OF tq0]) (rule pref_key_mono)
  have d: "x = y" if "x \<in># N" and "y \<in># N" and "cand_key x = cand_key y" for x y
    using ties that unfolding N_def by (rule tie_keys_injective)
  have u: "map_option (cand_of q) (ranked (ranking q env1) 0) =
           map_option (cand_of p) (ranked (ranking p env0) 0) \<and>
           map_option (cand_of q) (ranked (ranking q env1) 1) =
           map_option (cand_of p) (ranked (ranking p env0) 1)"
    using d tq tp by (rule top2_unique[where k = cand_key and N = N])
  from u
  have "map_option envdata (ranked (ranking q env1) 0) =
        map_option envdata (ranked (ranking p env0) 0)"
    and "map_option envdata (ranked (ranking q env1) 1) =
        map_option envdata (ranked (ranking p env0) 1)"
    by (auto simp: cand_of_def map_option_case split: option.splits)
  moreover have "chosen_params q = chosen_params p"
    by (intro ext) (simp add: sel chosen_params_def split: option.splits)
  ultimately show ?thesis
    by (simp add: load_config_enumerated[OF True] load_config_enumerated[OF eq]
          select_params[OF ptr_ok_ranking])
  qed
qed

theorem C9_permutation_determinism_witness:
  "mset (volumes extra_platform_shuffled) = mset (volumes extra_platform) \<and>
   map envdata (candidates extra_platform (visited_volumes extra_platform)) =
     [test_envdata 2 False USTATE_OK 11, test_envdata 1 False USTATE_OK 99,
      test_envdata 1 False USTATE_OK 99] \<and>
   map envdata (candidates extra_platform_shuffled (visited_volumes extra_platform_shuffled)) =
     [test_envdata 1 False USTATE_OK 99, test_envdata 2 False USTATE_OK 11,
      test_envdata 1 False USTATE_OK 99] \<and>
   params (load_config extra_platform_shuffled test_env0 test_bglp) =
     params (load_config extra_platform test_env0 test_bglp) \<and>
   timeout (params (load_config extra_platform test_env0 test_bglp)) = 11 \<and>
   status (load_config extra_platform test_env0 test_bglp) = BG_CONFIG_PARTIALLY_CORRUPTED"
proof -
  let ?vs = "[test_volume non_boot_volume 12, test_volume non_boot_volume 10,
      test_volume non_boot_volume 11]"
  have q: "extra_platform_shuffled =
     extra_platform\<lparr>volumes := ?vs,
       enumerate_cfg_parts := (EFI_SUCCESS, [0 ..< length ?vs]),
       filter_cfg_parts := filter (\<lambda>vx. devpath (?vs ! vx) \<noteq> non_boot_disk)\<rparr>"
    by (simp add: extra_platform_shuffled_def extra_platform_def test_platform_def)
  have vp: "volumes extra_platform =
      [test_volume non_boot_volume 10, test_volume non_boot_volume 11,
       test_volume non_boot_volume 12]"
    by (simp add: extra_platform_def test_platform_def)
  have vq: "volumes extra_platform_shuffled = ?vs"
    by (simp add: extra_platform_shuffled_def test_platform_def)
  have perm: "mset ?vs = mset (volumes extra_platform)"
    by (simp add: vp)
  have en: "EFI_ERROR (fst (EFI_SUCCESS, [0 ..< length ?vs])) =
      EFI_ERROR (fst (enumerate_cfg_parts extra_platform))"
    by (simp add: extra_platform_def test_platform_def)
  have l1: "map (\<lambda>vix. ?vs ! vix) (visited_volumes extra_platform_shuffled) = ?vs"
    by code_simp
  have l2: "map (\<lambda>vix. volumes extra_platform ! vix) (visited_volumes extra_platform) =
      [test_volume non_boot_volume 10, test_volume non_boot_volume 11,
       test_volume non_boot_volume 12]"
    by code_simp
  have same: "mset (map (\<lambda>vix. ?vs ! vix) (visited_volumes extra_platform_shuffled)) =
      mset (map (\<lambda>vix. volumes extra_platform ! vix) (visited_volumes extra_platform))"
    by (simp only: l1 l2) simp
  have ties: "\<forall>c\<in>set (candidates extra_platform (visited_volumes extra_platform)).
      \<forall>c'\<in>set (candidates extra_platform (visited_volumes extra_platform)).
        tie_key extra_platform c = tie_key extra_platform c' \<longrightarrow> envdata c = envdata c'"
    by code_simp
  have c1: "map envdata (candidates extra_platform (visited_volumes extra_platform)) =
     [test_envdata 2 False USTATE_OK 11, test_envdata 1 False USTATE_OK 99,
      test_envdata 1 False USTATE_OK 99]"
    by code_simp
  have c2: "map envdata
       (candidates extra_platform_shuffled (visited_volumes extra_platform_shuffled)) =
     [test_envdata 1 False USTATE_OK 99, test_envdata 2 False USTATE_OK 11,
      test_envdata 1 False USTATE_OK 99]"
    by code_simp
  have t: "timeout (params (load_config extra_platform test_env0 test_bglp)) = 11"
    by code_simp
  have u: "status (load_config extra_platform test_env0 test_bglp) =
      BG_CONFIG_PARTIALLY_CORRUPTED"
    by code_simp
  from C9_permutation_determinism[OF q perm en same ties, of test_env0 test_bglp test_env0]
    perm c1 c2 t u vq
  show ?thesis by simp
qed

text \<open>
  C9 as stated fails when the volume index is the tie-breaker that settles the order:
  two volumes on the boot volume hold records that agree on in_progress, revision and
  state and differ in the watchdog timeout.
  In either order of the array the candidate with the lower index is strictly
  preferred, so the order is fully resolved, but the two runs return different
  timeouts.
\<close>

theorem C9_volume_index_tie_counterexample:
  "volumes tie_platform_shuffled = rev (volumes tie_platform) \<and>
   tie_platform_shuffled =
     tie_platform\<lparr>volumes := volumes tie_platform_shuffled,
       enumerate_cfg_parts := enumerate_cfg_parts tie_platform_shuffled,
       filter_cfg_parts := filter_cfg_parts tie_platform_shuffled\<rparr> \<and>
   candidates tie_platform (visited_volumes tie_platform) =
     [\<lparr>volume_index = 0, envdata = test_envdata 1 False USTATE_OK 11\<rparr>,
      \<lparr>volume_index = 1, envdata = test_envdata 1 False USTATE_OK 99\<rparr>] \<and>
   preferred tie_platform
     (Some \<lparr>volume_index = 0, envdata = test_envdata 1 False USTATE_OK 11\<rparr>)
     (Some \<lparr>volume_index = 1, envdata = test_envdata 1 False USTATE_OK 99\<rparr>) \<and>
   candidates tie_platform_shuffled (visited_volumes tie_platform_shuffled) =
     [\<lparr>volume_index = 0, envdata = test_envdata 1 False USTATE_OK 99\<rparr>,
      \<lparr>volume_index = 1, envdata = test_envdata 1 False USTATE_OK 11\<rparr>] \<and>
   preferred tie_platform_shuffled
     (Some \<lparr>volume_index = 0, envdata = test_envdata 1 False USTATE_OK 99\<rparr>)
     (Some \<lparr>volume_index = 1, envdata = test_envdata 1 False USTATE_OK 11\<rparr>) \<and>
   timeout (params (load_config tie_platform test_env0 test_bglp)) = 11 \<and>
   timeout (params (load_config tie_platform_shuffled test_env0 test_bglp)) = 99"
proof -
  have "tie_platform_shuffled =
     tie_platform\<lparr>volumes := volumes tie_platform_shuffled,
       enumerate_cfg_parts := enumerate_cfg_parts tie_platform_shuffled,
       filter_cfg_parts := filter_cfg_parts tie_platform_shuffled\<rparr>"
    by (simp add: tie_platform_shuffled_def tie_platform_def test_platform_def)
  moreover have "volumes tie_platform_shuffled = rev (volumes tie_platform)"
    by code_simp
  moreover have "candidates tie_platform (visited_volumes tie_platform) =
     [\<lparr>volume_index = 0, envdata = test_envdata 1 False USTATE_OK 11\<rparr>,
      \<lparr>volume_index = 1, envdata = test_envdata 1 False USTATE_OK 99\<rparr>]"
    by code_simp
  moreover have "preferred tie_platform
     (Some \<lparr>volume_index = 0, envdata = test_envdata 1 False USTATE_OK 11\<rparr>)
     (Some \<lparr>volume_index = 1, envdata = test_envdata 1 False USTATE_OK 99\<rparr>)"
    by code_simp
  moreover have "candidates tie_platform_shuffled (visited_volumes tie_platform_shuffled) =
     [\<lparr>volume_index = 0, envdata = test_envdata 1 False USTATE_OK 99\<rparr>,
      \<lparr>volume_index = 1, envdata = test_envdata 1 False USTATE_OK 11\<rparr>]"
    by code_simp
  moreover have "preferred tie_platform_shuffled
     (Some \<lparr>volume_index = 0, envdata = test_envdata 1 False USTATE_OK 99\<rparr>)
     (Some \<lparr>volume_index = 1, envdata = test_envdata 1 False USTATE_OK 11\<rparr>)"
    by code_simp
  moreover have "timeout (params (load_config tie_platform test_env0 test_bglp)) = 11"
    by code_simp
  moreover have "timeout (params (load_config tie_platform_shuffled test_env0 test_bglp)) = 99"
    by code_simp
  ultimately show ?thesis by blast
qed

text \<open>
  C10.  A leader that is not in progress and whose state is FAILED or unknown has rank
  3 and is handed to the loader as it is: the run ends in the state the ranking left,
  no file is opened for writing or written, and the verdict is SUCCESS unless an
  anomaly was flagged during the visit of the volumes.
\<close>

theorem C10_failed_or_unknown_leader:
  assumes "enumerated p"
    and "ranked (ranking p env0) 0 = Some leader"
    and "\<not> in_progress (envdata leader)"
    and "ustate (envdata leader) = USTATE_FAILED \<or> ustate (envdata leader) = USTATE_UNKNOWN"
  shows "config_state_ranking (Some (envdata leader)) = 3 \<and>
         params (load_config p env0 bglp) = handed p bglp leader \<and>
         final (load_config p env0 bglp) = ranking p env0 \<and>
         filter is_write_access (trace (final (load_config p env0 bglp))) = [] \<and>
         status (load_config p env0 bglp) =
           (if flagged p then BG_CONFIG_PARTIALLY_CORRUPTED else BG_SUCCESS)"
proof -
  from assms(4) have n: "ustate (envdata leader) \<noteq> USTATE_TESTING"
    "ustate (envdata leader) \<noteq> USTATE_INSTALLED"
    by auto
  from assms(4) have "config_state_ranking (Some (envdata leader)) = 3"
    by (auto simp: config_state_ranking_def)
  with select_other[OF assms(2,3) n, of p bglp] show ?thesis
    by (simp add: load_config_enumerated[OF assms(1)] ranking_no_write verdict_ranking)
qed

theorem C10_failed_or_unknown_leader_witness:
  "enumerated failed_platform \<and>
   ranked (ranking failed_platform test_env0) 0 =
     Some \<lparr>volume_index = 0, envdata = test_envdata 2 False USTATE_FAILED 11\<rparr> \<and>
   \<not> flagged failed_platform \<and>
   status (load_config failed_platform test_env0 test_bglp) = BG_SUCCESS \<and>
   params (load_config failed_platform test_env0 test_bglp) =
     \<lparr>payload_path = Some [107, 11, 0], payload_options = Some [112, 2, 0], timeout = 11\<rparr> \<and>
   filter is_write_access (trace (final (load_config failed_platform test_env0 test_bglp))) = []"
proof -
  have h1: "enumerated failed_platform"
    by code_simp
  have h2: "ranked (ranking failed_platform test_env0) 0 =
      Some \<lparr>volume_index = 0, envdata = test_envdata 2 False USTATE_FAILED 11\<rparr>"
    by code_simp
  have h3: "\<not> in_progress
      (envdata \<lparr>volume_index = 0, envdata = test_envdata 2 False USTATE_FAILED 11\<rparr>)"
    by code_simp
  have u: "ustate
      (envdata \<lparr>volume_index = 0, envdata = test_envdata 2 False USTATE_FAILED 11\<rparr>) =
      USTATE_FAILED"
    by code_simp
  then have h4: "ustate
      (envdata \<lparr>volume_index = 0, envdata = test_envdata 2 False USTATE_FAILED 11\<rparr>) =
      USTATE_FAILED \<or> ustate
      (envdata \<lparr>volume_index = 0, envdata = test_envdata 2 False USTATE_FAILED 11\<rparr>) =
      USTATE_UNKNOWN"
    by (rule disjI1)
  have f: "\<not> flagged failed_platform"
    by code_simp
  have hd: "handed failed_platform test_bglp
       \<lparr>volume_index = 0, envdata = test_envdata 2 False USTATE_FAILED 11\<rparr> =
     \<lparr>payload_path = Some [107, 11, 0], payload_options = Some [112, 2, 0], timeout = 11\<rparr>"
    by code_simp
  from C10_failed_or_unknown_leader[OF h1 h2 h3 h4, of test_bglp] h1 h2 f hd
  show ?thesis
    by (simp add: ranking_no_write)
qed

end
